theory Spec2Isabelle
  imports Main "HOL-Library.Sublist" "HOL-Library.Char_ord" "HOL-Library.List_Lexorder"
    "HOL-Library.AList"
begin

section \<open>JavaScript values used by the booking service\<close>

text \<open>
  Strings are \<^typ>\<open>string\<close>, read as ASCII text: a character above \<open>0x7F\<close> stands for
  no JavaScript character, is in no character class and has no other case. The Unicode
  members of the classes \<open>\s\<close> and \<open>.\<close> and the case pairs beyond \<open>A-Z\<close> are therefore
  not modelled. A property that is \<open>null\<close>, \<open>undefined\<close> or missing is \<^const>\<open>None\<close>;
  the code never tells the three apart.
\<close>

datatype js_error = Error string | TypeError string | RangeError string

text \<open>Truthiness of a string-or-null value: \<open>null\<close>, \<open>undefined\<close> and \<open>""\<close> are falsy.\<close>

fun truthy :: "string option \<Rightarrow> bool" where
  "truthy None = False"
| "truthy (Some s) = (s \<noteq> [])"

text \<open>\<open>a || b\<close> on string-or-null operands.\<close>

definition js_or :: "string option \<Rightarrow> string option \<Rightarrow> string option" where
  "js_or a b = (if truthy a then a else b)"

text \<open>Truthiness of a number-or-null value: \<open>null\<close>, \<open>undefined\<close> and \<open>0\<close> are falsy.\<close>

fun truthy_num :: "nat option \<Rightarrow> bool" where
  "truthy_num None = False"
| "truthy_num (Some n) = (n \<noteq> 0)"

definition upper_letters :: string where
  "upper_letters = ''ABCDEFGHIJKLMNOPQRSTUVWXYZ''"

definition lower_letters :: string where
  "lower_letters = ''abcdefghijklmnopqrstuvwxyz''"

definition lower_char :: "char \<Rightarrow> char" where
  "lower_char c = (case map_of (zip upper_letters lower_letters) c of Some d \<Rightarrow> d | None \<Rightarrow> c)"

text \<open>\<open>s.toLowerCase()\<close>\<close>

definition toLowerCase :: "string \<Rightarrow> string" where
  "toLowerCase s = map lower_char s"

text \<open>\<open>s.startsWith(p)\<close>\<close>

definition startsWith :: "string \<Rightarrow> string \<Rightarrow> bool" where
  "startsWith s p = (take (length p) s = p)"

text \<open>\<open>s.includes(p)\<close>: \<open>p\<close> occurs at some position of \<open>s\<close>.\<close>

fun str_includes :: "string \<Rightarrow> string \<Rightarrow> bool" where
  "str_includes [] p = (p = [])"
| "str_includes (c # cs) p = (startsWith (c # cs) p \<or> str_includes cs p)"

text \<open>The white space of \<open>\s\<close> and of \<open>trim()\<close>: tab, line feed, vertical tab, form feed,
  carriage return, space.\<close>

definition is_space :: "char \<Rightarrow> bool" where
  "is_space c = (c \<in> set [CHR 0x09, CHR 0x0A, CHR 0x0B, CHR 0x0C, CHR 0x0D, CHR 0x20])"

definition is_digit :: "char \<Rightarrow> bool" where
  "is_digit c = (c \<in> set ''0123456789'')"

text \<open>The line terminators that \<open>.\<close> does not match.\<close>

definition is_line_terminator :: "char \<Rightarrow> bool" where
  "is_line_terminator c = (c = CHR 0x0A \<or> c = CHR 0x0D)"

text \<open>\<open>s.trim()\<close>\<close>

definition trim :: "string \<Rightarrow> string" where
  "trim s = rev (dropWhile is_space (rev (dropWhile is_space s)))"

text \<open>\<open>s.split(c)\<close> for a one-character separator: the pieces between the separators,
  always at least one piece.\<close>

fun split_on :: "char \<Rightarrow> string \<Rightarrow> string list" where
  "split_on sep [] = [[]]"
| "split_on sep (c # cs) =
     (if c = sep then [] # split_on sep cs
      else (case split_on sep cs of
              [] \<Rightarrow> [[c]]
            | p # ps \<Rightarrow> (c # p) # ps))"

text \<open>\<open>s.replace(pat, rep)\<close> with a string pattern: the first occurrence only.\<close>

fun replace_first :: "string \<Rightarrow> string \<Rightarrow> string \<Rightarrow> string" where
  "replace_first pat rep [] = (if pat = [] then rep else [])"
| "replace_first pat rep (c # cs) =
     (if startsWith (c # cs) pat then rep @ drop (length pat) (c # cs)
      else c # replace_first pat rep cs)"

section \<open>Raw orders of the commerce platform\<close>

text \<open>An entry of \<open>note_attributes\<close> or of a line item's \<open>properties\<close>.\<close>

record attribute =
  attr_name :: "string option"
  attr_value :: "string option"

record line_item =
  li_name :: "string option"
  li_quantity :: "int option"
  li_price :: "string option"
  li_vendor :: "string option"
  li_product_id :: "nat option"
  li_properties :: "attribute list option"

record customer =
  first_name :: "string option"
  last_name :: "string option"
  cust_email :: "string option"
  cust_phone :: "string option"

record raw_order =
  order_id :: nat
  order_number :: "nat option"
  order_name :: "string option"
  order_customer :: "customer option"
  line_items :: "line_item list option"
  note_attributes :: "attribute list option"
  created_at :: "string option"
  financial_status :: "string option"
  fulfillment_status :: "string option"

section \<open>Booking detection: \<open>hasCowlendarMetadata\<close>\<close>

text \<open>\<open>process.env.COWLENDAR_METADATA_PREFIX || '__cow_'\<close>, from the value of the
  environment variable.\<close>

definition cowlendar_prefix :: "string option \<Rightarrow> string" where
  "cowlendar_prefix env_prefix = (case js_or env_prefix (Some ''__cow_'') of Some p \<Rightarrow> p | None \<Rightarrow> ''__cow_'')"

text \<open>\<open>attr.name && attr.name.startsWith(prefix)\<close>, as \<open>some\<close> reads it.\<close>

definition has_prefixed_name :: "string \<Rightarrow> attribute \<Rightarrow> bool" where
  "has_prefixed_name pre a =
     (case attr_name a of
        None \<Rightarrow> False
      | Some n \<Rightarrow> n \<noteq> [] \<and> startsWith n pre)"

text \<open>\<open>item.properties && item.properties.some(...)\<close>\<close>

definition item_has_metadata :: "string \<Rightarrow> line_item \<Rightarrow> bool" where
  "item_has_metadata pre item =
     (case li_properties item of
        None \<Rightarrow> False
      | Some props \<Rightarrow> list_ex (has_prefixed_name pre) props)"

definition hasCowlendarMetadata :: "string option \<Rightarrow> raw_order \<Rightarrow> bool" where
  "hasCowlendarMetadata env_prefix order =
     (let pre = cowlendar_prefix env_prefix;
          hasNoteMetadata =
            (case note_attributes order of
               None \<Rightarrow> False
             | Some attrs \<Rightarrow> length attrs > 0 \<and> list_ex (has_prefixed_name pre) attrs)
      in if hasNoteMetadata then True
         else (case line_items order of
                 None \<Rightarrow> False
               | Some items \<Rightarrow>
                   if length items > 0 then list_ex (item_has_metadata pre) items
                   else False))"

section \<open>Metadata extraction: \<open>extractCowlendarMetadata\<close>\<close>

record metadata =
  eventData :: "string option"
  internalId :: "string option"
  integrity :: "string option"

text \<open>\<open>attr.name && attr.name.toLowerCase().includes('data')\<close>\<close>

definition name_includes_data :: "attribute \<Rightarrow> bool" where
  "name_includes_data a =
     (case attr_name a of
        None \<Rightarrow> False
      | Some n \<Rightarrow> n \<noteq> [] \<and> str_includes (toLowerCase n) ''data'')"

text \<open>The body of the \<open>forEach\<close> callback of \<open>processAttributes\<close>: one attribute,
  the metadata object before and after.\<close>

definition process_attribute :: "attribute \<Rightarrow> metadata \<Rightarrow> metadata" where
  "process_attribute a m =
     (if attr_name a = Some ''__cow_internal_id'' then m\<lparr>internalId := attr_value a\<rparr>
      else if attr_name a = Some ''__cow_integrity'' then m\<lparr>integrity := attr_value a\<rparr>
      else if attr_name a = Some ''Date'' then m\<lparr>eventData := attr_value a\<rparr>
      else if name_includes_data a then m\<lparr>eventData := attr_value a\<rparr>
      else m)"

definition processAttributes :: "attribute list \<Rightarrow> metadata \<Rightarrow> metadata" where
  "processAttributes attrs m = fold process_attribute attrs m"

definition process_item :: "line_item \<Rightarrow> metadata \<Rightarrow> metadata" where
  "process_item item m =
     (case li_properties item of
        None \<Rightarrow> m
      | Some props \<Rightarrow> if length props > 0 then processAttributes props m else m)"

definition extractCowlendarMetadata :: "raw_order \<Rightarrow> metadata" where
  "extractCowlendarMetadata order =
     (let m0 = \<lparr>eventData = None, internalId = None, integrity = None\<rparr>;
          m1 = (case note_attributes order of
                  None \<Rightarrow> m0
                | Some attrs \<Rightarrow> if length attrs > 0 then processAttributes attrs m0 else m0)
      in case line_items order of
           None \<Rightarrow> m1
         | Some items \<Rightarrow> if length items > 0 then fold process_item items m1 else m1)"

section \<open>Schedule parsing: \<open>parseEventDate\<close>\<close>

subsection \<open>The two regular expressions\<close>

text \<open>
  \<open>/\(([^)]+)\)$/\<close> tried at the head of the string: an opening parenthesis, the longest
  run of characters other than \<open>)\<close>, which must not be empty, a closing parenthesis, the
  end of the input. Giving characters of the run back cannot help, since the next
  character would again be one other than \<open>)\<close>. The result is the captured group.
\<close>

definition timezone_at :: "string \<Rightarrow> string option" where
  "timezone_at s =
     (case s of
        [] \<Rightarrow> None
      | c # rest \<Rightarrow>
          if c = CHR ''(''
          then (let run = takeWhile (\<lambda>x. x \<noteq> CHR '')'') rest;
                    after = dropWhile (\<lambda>x. x \<noteq> CHR '')'') rest
                in if run \<noteq> [] \<and> after = '')'' then Some run else None)
          else None)"

text \<open>\<open>s.match(/\(([^)]+)\)$/)\<close>: the start positions from left to right, the first
  that matches wins.\<close>

fun timezoneMatch :: "string \<Rightarrow> string option" where
  "timezoneMatch [] = None"
| "timezoneMatch (c # cs) =
     (case timezone_at (c # cs) of
        Some z \<Rightarrow> Some z
      | None \<Rightarrow> timezoneMatch cs)"

text \<open>\<open>(\d{2}:\d{2})\<close> at the head of the string: the group and the rest.\<close>

definition time_at :: "string \<Rightarrow> (string \<times> string) option" where
  "time_at s =
     (case s of
        a # b # c # d # e # rest \<Rightarrow>
          if is_digit a \<and> is_digit b \<and> c = CHR '':'' \<and> is_digit d \<and> is_digit e
          then Some ([a, b, c, d, e], rest) else None
      | _ \<Rightarrow> None)"

text \<open>
  \<open>,\s*(\d{2}:\d{2})\s*-\s*(\d{2}:\d{2})\<close> at the head of the string. Each \<open>\s*\<close> takes
  all the white space there is: what follows it is a digit or a hyphen, which a white space
  given back could not match.
\<close>

definition times_at :: "string \<Rightarrow> (string \<times> string) option" where
  "times_at s =
     (case s of
        [] \<Rightarrow> None
      | c # rest \<Rightarrow>
          if c = CHR '',''
          then (case time_at (dropWhile is_space rest) of
                  None \<Rightarrow> None
                | Some (startTime, rest1) \<Rightarrow>
                    (case dropWhile is_space rest1 of
                       [] \<Rightarrow> None
                     | h # rest2 \<Rightarrow>
                         if h = CHR ''-''
                         then (case time_at (dropWhile is_space rest2) of
                                 None \<Rightarrow> None
                               | Some (endTime, _) \<Rightarrow> Some (startTime, endTime))
                         else None))
          else None)"

text \<open>
  The lazy group \<open>(.+?)\<close>: \<open>pre\<close> is the part of the date group read so far. One more
  character that is no line terminator joins the group, and the rest of the pattern is
  tried right after it; the shortest group that lets the rest match wins.
\<close>

fun date_group :: "string \<Rightarrow> string \<Rightarrow> (string \<times> string \<times> string) option" where
  "date_group pre [] = None"
| "date_group pre (c # cs) =
     (if is_line_terminator c then None
      else (case times_at cs of
              Some (startTime, endTime) \<Rightarrow> Some (pre @ [c], startTime, endTime)
            | None \<Rightarrow> date_group (pre @ [c]) cs))"

text \<open>\<open>s.match(/^(.+?),\s*(\d{2}:\d{2})\s*-\s*(\d{2}:\d{2})/)\<close>: the three groups.\<close>

definition dateTimeMatch :: "string \<Rightarrow> (string \<times> string \<times> string) option" where
  "dateTimeMatch s = date_group [] s"

subsection \<open>The date library\<close>

text \<open>
  The calls into \<open>moment-timezone\<close>, which is no part of the repository: a parameter
  of the parser. \<open>'m\<close> is the type of its moment objects. Each call may throw.
  \<^item> \<open>moment_tz input format zone\<close> is \<open>moment.tz(input, format, zone)\<close>;
  \<^item> \<open>moment_format m format\<close> is \<open>m.format(format)\<close>;
  \<^item> \<open>moment_add_iso m t\<close> is \<open>m.clone().add(moment.duration(t)).toISOString()\<close>,
    which is \<open>null\<close> for an invalid date.
\<close>

record 'm moment_lib =
  moment_tz :: "string \<Rightarrow> string \<Rightarrow> string \<Rightarrow> js_error + 'm"
  moment_format :: "'m \<Rightarrow> string \<Rightarrow> js_error + string"
  moment_add_iso :: "'m \<Rightarrow> string \<Rightarrow> js_error + string option"

subsection \<open>The parser\<close>

record event_details =
  ed_eventDate :: "string option"
  ed_startTime :: "string option"
  ed_endTime :: "string option"
  ed_timezone :: string
  ed_startDateTime :: "string option"
  ed_endDateTime :: "string option"

text \<open>The object returned for an absent string and by the \<open>catch\<close> block: it has no
  \<open>startDateTime\<close> and no \<open>endDateTime\<close>.\<close>

definition no_event :: event_details where
  "no_event = \<lparr>ed_eventDate = None, ed_startTime = None, ed_endTime = None,
     ed_timezone = ''UTC'', ed_startDateTime = None, ed_endDateTime = None\<rparr>"

definition bind_err :: "js_error + 'a \<Rightarrow> ('a \<Rightarrow> js_error + 'b) \<Rightarrow> js_error + 'b" where
  "bind_err r f = (case r of Inl e \<Rightarrow> Inl e | Inr x \<Rightarrow> f x)"

text \<open>The \<open>try\<close> block of \<open>parseEventDate\<close>; \<open>Inl\<close> is an exception thrown in it.\<close>

definition parse_try :: "'m moment_lib \<Rightarrow> string \<Rightarrow> js_error + event_details" where
  "parse_try lib eventDataString =
     (let timezone = (case timezoneMatch eventDataString of Some z \<Rightarrow> z | None \<Rightarrow> ''UTC'')
      in case dateTimeMatch eventDataString of
           None \<Rightarrow> Inl (Error ''Unable to parse event date format'')
         | Some (datePart, startTime, endTime) \<Rightarrow>
             bind_err (moment_tz lib datePart ''DD MMM YYYY'' timezone) (\<lambda>eventDate.
             bind_err (moment_format lib eventDate ''YYYY-MM-DD'') (\<lambda>formatted.
             bind_err (moment_add_iso lib eventDate startTime) (\<lambda>startIso.
             bind_err (moment_add_iso lib eventDate endTime) (\<lambda>endIso.
               Inr \<lparr>ed_eventDate = Some formatted, ed_startTime = Some startTime,
                    ed_endTime = Some endTime, ed_timezone = timezone,
                    ed_startDateTime = startIso, ed_endDateTime = endIso\<rparr>)))))"

definition parseEventDate :: "'m moment_lib \<Rightarrow> string option \<Rightarrow> event_details" where
  "parseEventDate lib eventDataString =
     (case eventDataString of
        None \<Rightarrow> no_event
      | Some s \<Rightarrow>
          if s = [] then no_event
          else (case parse_try lib s of
                  Inl error \<Rightarrow> no_event
                | Inr details \<Rightarrow> details))"

section \<open>The store behind the service\<close>

text \<open>A number that may be \<open>NaN\<close>, as \<open>parseInt\<close> returns it.\<close>

datatype js_int = NaN | Num int

text \<open>The \<open>params\<close> object a caller hands to \<open>getOrders\<close>; an absent key is \<^const>\<open>None\<close>.\<close>

record order_params =
  p_limit :: "js_int option"
  p_status :: "string option"
  p_email :: "string option"

text \<open>The query parameters of the request \<open>GET /orders.json\<close>.\<close>

record query_params =
  qp_status :: string
  qp_limit :: js_int
  qp_fields :: string
  qp_email :: "string option"

record metafield =
  mf_key :: "string option"
  mf_namespace :: "string option"
  mf_value :: "string option"

record product =
  product_tags :: "string option"

text \<open>
  The HTTP client of the service, a parameter: \<open>get_orders\<close> answers
  \<open>GET /orders.json\<close> with the orders of the response, \<open>get_metafields\<close> answers
  \<open>GET /products/{id}/metafields.json\<close>, \<open>get_product\<close> answers
  \<open>GET /products/{id}.json\<close>, \<open>get_order\<close> answers \<open>GET /orders/{id}.json\<close> with
  the order of the response. \<open>Inl\<close> is a rejected request.
\<close>

record shopify_client =
  get_orders :: "query_params \<Rightarrow> js_error + raw_order list"
  get_order :: "string \<Rightarrow> js_error + raw_order"
  get_metafields :: "nat \<Rightarrow> js_error + metafield list"
  get_product :: "nat \<Rightarrow> js_error + product"

text \<open>\<open>{ ...defaultParams, ...params }\<close>\<close>

definition queryParams :: "order_params \<Rightarrow> query_params" where
  "queryParams params =
     \<lparr>qp_status = (case p_status params of None \<Rightarrow> ''any'' | Some st \<Rightarrow> st),
      qp_limit = (case p_limit params of None \<Rightarrow> Num 50 | Some l \<Rightarrow> l),
      qp_fields = ''id,order_number,name,customer,line_items,created_at,financial_status,fulfillment_status,note_attributes'',
      qp_email = p_email params\<rparr>"

text \<open>\<open>getOrders\<close>: a failed request is thrown again as \<open>Failed to fetch orders: ...\<close>
  (the detail of the message is left out).\<close>

definition getOrders :: "shopify_client \<Rightarrow> order_params \<Rightarrow> js_error + raw_order list" where
  "getOrders client params =
     (case get_orders client (queryParams params) of
        Inl error \<Rightarrow> Inl (Error ''Failed to fetch orders'')
      | Inr orders \<Rightarrow> Inr orders)"

text \<open>\<open>getOrderById\<close>: a failed request is thrown again as
  \<open>Failed to fetch order {id}: ...\<close> (the detail after the colon is left out).\<close>

definition getOrderById :: "shopify_client \<Rightarrow> string \<Rightarrow> js_error + raw_order" where
  "getOrderById client orderId =
     (case get_order client orderId of
        Inl error \<Rightarrow> Inl (Error (''Failed to fetch order '' @ orderId))
      | Inr order \<Rightarrow> Inr order)"

section \<open>Provider resolution\<close>

text \<open>The predicate of \<open>metafields.find\<close> in \<open>getProductHost\<close>.\<close>

definition is_host_metafield :: "metafield \<Rightarrow> bool" where
  "is_host_metafield field =
     (case mf_key field of
        None \<Rightarrow> False
      | Some k \<Rightarrow> k \<noteq> [] \<and>
          (toLowerCase k = ''host'' \<or> k = ''Host'' \<or>
           (mf_namespace field = Some ''custom'' \<and> k = ''host'')))"

text \<open>The predicate of \<open>find\<close> over the tags.\<close>

definition is_host_tag :: "string \<Rightarrow> bool" where
  "is_host_tag tag = startsWith (toLowerCase (trim tag)) ''host:''"

text \<open>\<open>hostTag.split(':')[1].trim()\<close>; reading \<open>trim\<close> of an absent second piece
  throws.\<close>

definition host_of_tag :: "string \<Rightarrow> js_error + string" where
  "host_of_tag hostTag =
     (case split_on CHR '':'' hostTag of
        _ # piece # _ \<Rightarrow> Inr (trim piece)
      | _ \<Rightarrow> Inl (TypeError ''Cannot read properties of undefined''))"

text \<open>The \<open>try\<close> block of \<open>getProductHost\<close>.\<close>

definition product_host_try :: "shopify_client \<Rightarrow> nat \<Rightarrow> js_error + string option" where
  "product_host_try client productId =
     bind_err (get_metafields client productId) (\<lambda>metafields.
       case find is_host_metafield metafields of
         Some hostMetafield \<Rightarrow> Inr (mf_value hostMetafield)
       | None \<Rightarrow>
           bind_err (get_product client productId) (\<lambda>product.
             if truthy (product_tags product)
             then (case find is_host_tag (split_on CHR '','' (the (product_tags product))) of
                     Some hostTag \<Rightarrow> bind_err (host_of_tag hostTag) (\<lambda>h. Inr (Some h))
                   | None \<Rightarrow> Inr None)
             else Inr None))"

definition getProductHost :: "shopify_client \<Rightarrow> nat \<Rightarrow> string option" where
  "getProductHost client productId =
     (case product_host_try client productId of
        Inl error \<Rightarrow> None
      | Inr host \<Rightarrow> host)"

definition extractHostFromOrder :: "shopify_client \<Rightarrow> raw_order \<Rightarrow> string option" where
  "extractHostFromOrder client order =
     (case line_items order of
        None \<Rightarrow> None
      | Some [] \<Rightarrow> None
      | Some (firstLineItem # _) \<Rightarrow>
          if \<not> truthy_num (li_product_id firstLineItem) then None
          else getProductHost client (the (li_product_id firstLineItem)))"

definition extractVendorFromOrder :: "raw_order \<Rightarrow> string option" where
  "extractVendorFromOrder order =
     (case line_items order of
        None \<Rightarrow> None
      | Some [] \<Rightarrow> None
      | Some (firstLineItem # _) \<Rightarrow> js_or (li_vendor firstLineItem) None)"

definition extractEventName :: "raw_order \<Rightarrow> string" where
  "extractEventName order =
     (case line_items order of
        None \<Rightarrow> ''Unknown Event''
      | Some [] \<Rightarrow> ''Unknown Event''
      | Some (firstLineItem # _) \<Rightarrow> the (js_or (li_name firstLineItem) (Some ''Unknown Event'')))"

section \<open>Normalisation: \<open>parseOrderWithCowlendar\<close>\<close>

record booking_customer =
  firstName :: string
  lastName :: string
  email :: string
  phone :: string

record booking_item =
  item_name :: "string option"
  item_quantity :: "int option"
  item_price :: "string option"
  item_vendor :: "string option"
  item_productId :: "nat option"

record booking =
  shopifyOrderId :: nat
  orderNumber :: "nat option"
  orderName :: "string option"
  customer :: booking_customer
  eventName :: string
  host :: "string option"
  vendor :: "string option"
  provider :: "string option"
  eventDate :: "string option"
  startTime :: "string option"
  endTime :: "string option"
  timezone :: string
  cowlendarId :: "string option"
  cowlendarIntegrity :: "string option"
  createdAt :: "string option"
  financialStatus :: "string option"
  fulfillmentStatus :: "string option"
  lineItems :: "booking_item list"

text \<open>\<open>order.customer?.f || ''\<close>\<close>

definition customer_field :: "customer option \<Rightarrow> (customer \<Rightarrow> string option) \<Rightarrow> string" where
  "customer_field c f =
     (case c of
        None \<Rightarrow> []
      | Some cu \<Rightarrow> the (js_or (f cu) (Some [])))"

definition summarise_item :: "line_item \<Rightarrow> booking_item" where
  "summarise_item item =
     \<lparr>item_name = li_name item, item_quantity = li_quantity item, item_price = li_price item,
      item_vendor = li_vendor item, item_productId = li_product_id item\<rparr>"

definition parseOrderWithCowlendar ::
  "shopify_client \<Rightarrow> 'm moment_lib \<Rightarrow> raw_order \<Rightarrow> booking" where
  "parseOrderWithCowlendar client lib order =
     (let cowlendarData = extractCowlendarMetadata order;
          eventDetails = parseEventDate lib (eventData cowlendarData);
          host = extractHostFromOrder client order;
          vendor = extractVendorFromOrder order
      in \<lparr>shopifyOrderId = order_id order,
          orderNumber = order_number order,
          orderName = order_name order,
          customer = \<lparr>firstName = customer_field (order_customer order) first_name,
                      lastName = customer_field (order_customer order) last_name,
                      email = customer_field (order_customer order) cust_email,
                      phone = customer_field (order_customer order) cust_phone\<rparr>,
          eventName = extractEventName order,
          host = js_or host vendor,
          vendor = vendor,
          provider = js_or host vendor,
          eventDate = ed_eventDate eventDetails,
          startTime = ed_startTime eventDetails,
          endTime = ed_endTime eventDetails,
          timezone = ed_timezone eventDetails,
          cowlendarId = internalId cowlendarData,
          cowlendarIntegrity = integrity cowlendarData,
          createdAt = created_at order,
          financialStatus = financial_status order,
          fulfillmentStatus = fulfillment_status order,
          lineItems = (case line_items order of None \<Rightarrow> [] | Some items \<Rightarrow> map summarise_item items)\<rparr>)"

section \<open>Booking queries of the service\<close>

text \<open>\<open>getEventOrders(params, hostFilter)\<close>. \<open>Promise.all\<close> keeps the order of the
  orders; no normalisation rejects.\<close>

definition getEventOrders ::
  "shopify_client \<Rightarrow> 'm moment_lib \<Rightarrow> string option \<Rightarrow> order_params \<Rightarrow> string option
     \<Rightarrow> js_error + booking list" where
  "getEventOrders client lib env_prefix params hostFilter =
     bind_err (getOrders client params) (\<lambda>orders.
       let eventOrders = filter (hasCowlendarMetadata env_prefix) orders;
           parsedOrders = map (parseOrderWithCowlendar client lib) eventOrders
       in if truthy hostFilter
          then Inr (filter (\<lambda>order. host order = hostFilter) parsedOrders)
          else Inr parsedOrders)"

text \<open>\<open>v && v.toLowerCase() === name.toLowerCase()\<close>\<close>

definition lower_match :: "string option \<Rightarrow> string \<Rightarrow> bool" where
  "lower_match v name = (truthy v \<and> toLowerCase (the v) = toLowerCase name)"

definition getOrdersByHost ::
  "shopify_client \<Rightarrow> 'm moment_lib \<Rightarrow> string option \<Rightarrow> string \<Rightarrow> order_params
     \<Rightarrow> js_error + booking list" where
  "getOrdersByHost client lib env_prefix hostName params =
     bind_err (getEventOrders client lib env_prefix params None) (\<lambda>eventOrders.
       Inr (filter (\<lambda>order. lower_match (host order) hostName) eventOrders))"

text \<open>The predicate of the filter in \<open>getOrdersByProvider\<close>.\<close>

definition provider_filter :: "string \<Rightarrow> booking \<Rightarrow> bool" where
  "provider_filter providerName order =
     (let hostMatch = lower_match (host order) providerName;
          vendorMatch = list_ex (\<lambda>item. lower_match (item_vendor item) providerName) (lineItems order)
      in hostMatch \<or> vendorMatch)"

definition getOrdersByProvider ::
  "shopify_client \<Rightarrow> 'm moment_lib \<Rightarrow> string option \<Rightarrow> string \<Rightarrow> order_params
     \<Rightarrow> js_error + booking list" where
  "getOrdersByProvider client lib env_prefix providerName params =
     bind_err (getEventOrders client lib env_prefix params None) (\<lambda>eventOrders.
       Inr (filter (provider_filter providerName) eventOrders))"

section \<open>Request handling\<close>

subsection \<open>Numbers read from the query string\<close>

definition digit_chars :: string where
  "digit_chars = ''0123456789abcdefghijklmnopqrstuvwxyz''"

text \<open>The position of the first occurrence of a character.\<close>

fun index_of :: "char \<Rightarrow> string \<Rightarrow> nat option" where
  "index_of c [] = None"
| "index_of c (x # xs) = (if c = x then Some 0 else map_option Suc (index_of c xs))"

text \<open>The value of a character as a digit, if it is one in the radix.\<close>

definition digit_value :: "nat \<Rightarrow> char \<Rightarrow> nat option" where
  "digit_value radix c =
     (case index_of (lower_char c) digit_chars of
        None \<Rightarrow> None
      | Some v \<Rightarrow> if v < radix then Some v else None)"

definition digits_value :: "nat \<Rightarrow> string \<Rightarrow> int" where
  "digits_value radix ds =
     foldl (\<lambda>acc c. acc * int radix + int (the (digit_value radix c))) 0 ds"

text \<open>
  \<open>parseInt(s)\<close> with no radix: leading white space, an optional sign, an optional
  \<open>0x\<close> that selects radix 16, the longest run of digits; \<open>NaN\<close> when the run is empty.
  The result is an integer of any size: JavaScript rounds one beyond \<open>2^53\<close> to the
  nearest double, on the same side of every bound used below.
\<close>

definition parseInt :: "string \<Rightarrow> js_int" where
  "parseInt s =
     (let s1 = dropWhile is_space s;
          negative = (case s1 of [] \<Rightarrow> False | c # _ \<Rightarrow> c = CHR ''-'');
          s2 = (case s1 of [] \<Rightarrow> [] | c # r \<Rightarrow> if c = CHR ''-'' \<or> c = CHR ''+'' then r else s1);
          hex = (case s2 of a # b # _ \<Rightarrow> a = CHR ''0'' \<and> (b = CHR ''x'' \<or> b = CHR ''X'') | _ \<Rightarrow> False);
          radix = (if hex then 16 else 10);
          s3 = (if hex then drop 2 s2 else s2);
          ds = takeWhile (\<lambda>c. digit_value radix c \<noteq> None) s3
      in if ds = [] then NaN
         else Num ((if negative then - 1 else 1) * digits_value radix ds))"

text \<open>\<open>Math.min(x, bound)\<close>: \<open>NaN\<close> when \<open>x\<close> is.\<close>

definition math_min :: "js_int \<Rightarrow> int \<Rightarrow> js_int" where
  "math_min x bound = (case x of NaN \<Rightarrow> NaN | Num n \<Rightarrow> Num (min n bound))"

text \<open>\<open>parseInt(limit)\<close> for a \<open>limit\<close> destructured from the query with a numeric
  default.\<close>

definition limit_or :: "int \<Rightarrow> string option \<Rightarrow> js_int" where
  "limit_or dflt limit = (case limit of None \<Rightarrow> Num dflt | Some l \<Rightarrow> parseInt l)"

subsection \<open>Comparing an event date with a query string\<close>

text \<open>
  \<open>order.eventDate >= date_from\<close> and \<open>order.eventDate <= date_to\<close>. Two strings are
  compared by their characters. A \<open>null\<close> date is compared as the number \<open>0\<close> with the
  number the query string converts to; only the sign of that number matters, and the
  conversion of a string to a number is a parameter: \<open>to_number_sign\<close>.
\<close>

datatype number_sign = NotANumber | Negative | Zero | Positive

definition js_ge :: "(string \<Rightarrow> number_sign) \<Rightarrow> string option \<Rightarrow> string \<Rightarrow> bool" where
  "js_ge to_number_sign a b =
     (case a of
        Some x \<Rightarrow> x \<ge> b
      | None \<Rightarrow> to_number_sign b = Negative \<or> to_number_sign b = Zero)"

definition js_le :: "(string \<Rightarrow> number_sign) \<Rightarrow> string option \<Rightarrow> string \<Rightarrow> bool" where
  "js_le to_number_sign a b =
     (case a of
        Some x \<Rightarrow> x \<le> b
      | None \<Rightarrow> to_number_sign b = Positive \<or> to_number_sign b = Zero)"

subsection \<open>Requests and responses\<close>

text \<open>\<open>process.env\<close>: the variables and their values.\<close>

type_synonym env = "(string \<times> string) list"

definition getenv :: "env \<Rightarrow> string \<Rightarrow> string option" where
  "getenv env k = map_of env k"

text \<open>
  What the handlers read of a request: the API key of the header \<open>x-api-key\<close> and of
  the query, the path parameters \<open>hostName\<close> and \<open>orderId\<close> (of the routes that have
  them), the query parameters, and the two properties that \<open>authenticateApiKey\<close> sets.
\<close>

record request =
  header_api_key :: "string option"
  query_api_key :: "string option"
  param_hostName :: string
  param_orderId :: string
  q_provider :: "string option"
  q_customer_email :: "string option"
  q_event_date :: "string option"
  q_date_from :: "string option"
  q_date_to :: "string option"
  q_cowlendar_id :: "string option"
  q_host :: "string option"
  q_order_id :: "string option"
  q_limit :: "string option"
  q_status :: "string option"
  authenticatedAs :: "string option"
  authenticatedHost :: "string option"

text \<open>
  \<open>Json_error code error message\<close> is
  \<open>res.status(code).json({ success: false, error, message })\<close>.
  \<open>Json_bookings orders\<close> is the response with status 200 and \<open>success: true\<close> whose
  \<open>data\<close> is \<open>orders.map(transform)\<close> and whose \<open>count\<close> is its length, for the
  transformation of the route: the bookings before that field-by-field rewrite.
  \<open>Json_booking order\<close> is the response with status 200 and \<open>success: true\<close> whose
  \<open>data\<close> is the one object \<open>transform(order)\<close>.
\<close>

datatype response =
    Json_error nat string string
  | Json_bookings "booking list"
  | Json_booking booking

text \<open>A middleware calls \<open>next()\<close>, with the request as it has changed it, or responds.\<close>

datatype middleware_result = Next request | Respond response

definition error_message :: "js_error \<Rightarrow> string" where
  "error_message e = (case e of Error m \<Rightarrow> m | TypeError m \<Rightarrow> m | RangeError m \<Rightarrow> m)"

subsection \<open>Authentication: \<open>middleware/auth.js\<close>\<close>

text \<open>
  The own property names of an object in the order of \<open>Object.keys\<close>, from the entries
  in the order in which the properties were created: the names that are array indices
  (canonical decimal numbers up to \<open>2^32 - 2\<close>) come first, in numeric order, then the
  other names in creation order.
\<close>

definition is_array_index :: "string \<Rightarrow> bool" where
  "is_array_index s =
     (s \<noteq> [] \<and> list_all is_digit s \<and> (s = ''0'' \<or> hd s \<noteq> CHR ''0'') \<and>
      digits_value 10 s \<le> 4294967294)"

definition object_keys :: "(string \<times> string) list \<Rightarrow> string list" where
  "object_keys obj =
     sort_key (digits_value 10) (filter is_array_index (map fst obj)) @
     filter (\<lambda>k. \<not> is_array_index k) (map fst obj)"

text \<open>
  \<open>hostKeys[hostName] = process.env[key]\<close> on the entries of \<open>hostKeys\<close>: a name
  assigned twice keeps its place and takes the later key; assigning a string to
  \<open>__proto__\<close> creates no property.
\<close>

definition assign_host_key :: "string \<Rightarrow> string \<Rightarrow> (string \<times> string) list \<Rightarrow> (string \<times> string) list" where
  "assign_host_key hostName v hostKeys =
     (if hostName = ''__proto__'' then hostKeys else AList.update hostName v hostKeys)"

text \<open>\<open>getHostApiKeys\<close>: the object from lower-cased host names to keys, as the list of
  its entries.\<close>

definition getHostApiKeys :: "env \<Rightarrow> (string \<times> string) list" where
  "getHostApiKeys env =
     fold (\<lambda>(key, v) hostKeys.
             if startsWith key ''HOST_API_KEY_''
             then assign_host_key (toLowerCase (replace_first ''HOST_API_KEY_'' [] key)) v hostKeys
             else hostKeys)
          env []"

definition authenticateApiKey :: "env \<Rightarrow> request \<Rightarrow> middleware_result" where
  "authenticateApiKey env req =
     (let apiKey = js_or (header_api_key req) (query_api_key req);
          expectedApiKey = getenv env ''API_KEY'';
          hostKeys = getHostApiKeys env;
          invalid = Respond (Json_error 403 ''Invalid API key'' ''The provided API key is not valid'')
      in if getenv env ''NODE_ENV'' = Some ''development'' \<and> \<not> truthy expectedApiKey \<and>
            length (object_keys hostKeys) = 0
         then Next req
         else if \<not> truthy expectedApiKey \<and> length (object_keys hostKeys) = 0
         then Respond (Json_error 500 ''Server configuration error''
                         ''API_KEY or HOST_API_KEY_* not configured'')
         else if \<not> truthy apiKey
         then Respond (Json_error 401 ''Authentication required''
                         ''API key must be provided via X-API-Key header or api_key query parameter'')
         else if truthy expectedApiKey \<and> apiKey = expectedApiKey
         then Next (req\<lparr>authenticatedAs := Some ''global''\<rparr>)
         else (case find (\<lambda>host. map_of hostKeys host = apiKey) (object_keys hostKeys) of
                 Some found \<Rightarrow>
                   if found \<noteq> []
                   then Next (req\<lparr>authenticatedAs := Some ''host'',
                                  authenticatedHost := Some found\<rparr>)
                   else invalid
               | None \<Rightarrow> invalid))"

text \<open>A string between double quotes.\<close>

definition quoted :: "string \<Rightarrow> string" where
  "quoted s = CHR 0x22 # s @ [CHR 0x22]"

text \<open>\<open>validateHostAccess\<close>; the message of the first refusal names the two hosts.\<close>

definition validateHostAccess :: "request \<Rightarrow> middleware_result" where
  "validateHostAccess req =
     (let hostName = param_hostName req
      in if authenticatedAs req = Some ''global'' then Next req
         else if authenticatedAs req = Some ''host''
         then (if authenticatedHost req = Some (toLowerCase hostName) then Next req
               else Respond (Json_error 403 ''Access denied''
                       (''Host '' @ quoted (the (js_or (authenticatedHost req) (Some ''undefined'')))
                          @ '' cannot access data for host '' @ quoted hostName)))
         else Respond (Json_error 403 ''Access denied'' ''Invalid authentication''))"

subsection \<open>\<open>GET /api/orders\<close>: \<open>routes/orders.js\<close>\<close>

text \<open>The \<open>shopifyParams\<close> of the handler.\<close>

definition orders_shopifyParams :: "request \<Rightarrow> order_params" where
  "orders_shopifyParams req =
     (let limitNum = math_min (limit_or 50 (q_limit req)) 250;
          status = (case q_status req of None \<Rightarrow> ''any'' | Some st \<Rightarrow> st)
      in \<lparr>p_limit = Some limitNum, p_status = Some status,
          p_email = (if truthy (q_customer_email req) then q_customer_email req else None)\<rparr>)"

text \<open>The three date filters, applied one after another to \<open>filteredOrders\<close>.\<close>

definition by_event_date :: "request \<Rightarrow> booking list \<Rightarrow> booking list" where
  "by_event_date req orders =
     (if truthy (q_event_date req)
      then filter (\<lambda>order. eventDate order = q_event_date req) orders
      else orders)"

definition by_date_from :: "(string \<Rightarrow> number_sign) \<Rightarrow> request \<Rightarrow> booking list \<Rightarrow> booking list" where
  "by_date_from to_number_sign req orders =
     (if truthy (q_date_from req)
      then filter (\<lambda>order. js_ge to_number_sign (eventDate order) (the (q_date_from req))) orders
      else orders)"

definition by_date_to :: "(string \<Rightarrow> number_sign) \<Rightarrow> request \<Rightarrow> booking list \<Rightarrow> booking list" where
  "by_date_to to_number_sign req orders =
     (if truthy (q_date_to req)
      then filter (\<lambda>order. js_le to_number_sign (eventDate order) (the (q_date_to req))) orders
      else orders)"

definition apply_date_filters ::
  "(string \<Rightarrow> number_sign) \<Rightarrow> request \<Rightarrow> booking list \<Rightarrow> booking list" where
  "apply_date_filters to_number_sign req orders =
     by_date_to to_number_sign req (by_date_from to_number_sign req (by_event_date req orders))"

definition orders_handler ::
  "shopify_client \<Rightarrow> 'm moment_lib \<Rightarrow> (string \<Rightarrow> number_sign) \<Rightarrow> env \<Rightarrow> request \<Rightarrow> response" where
  "orders_handler client lib to_number_sign env req =
     (let shopifyParams = orders_shopifyParams req;
          env_prefix = getenv env ''COWLENDAR_METADATA_PREFIX'';
          fetched = (if truthy (q_provider req)
                     then getOrdersByProvider client lib env_prefix (the (q_provider req)) shopifyParams
                     else getEventOrders client lib env_prefix shopifyParams None)
      in case fetched of
           Inl error \<Rightarrow> Json_error 500 ''Failed to fetch orders'' (error_message error)
         | Inr orders \<Rightarrow> Json_bookings (apply_date_filters to_number_sign req orders))"

text \<open>\<open>router.get('/', authenticateApiKey, handler)\<close>\<close>

definition orders_route ::
  "shopify_client \<Rightarrow> 'm moment_lib \<Rightarrow> (string \<Rightarrow> number_sign) \<Rightarrow> env \<Rightarrow> request \<Rightarrow> response" where
  "orders_route client lib to_number_sign env req =
     (case authenticateApiKey env req of
        Respond r \<Rightarrow> r
      | Next req1 \<Rightarrow> orders_handler client lib to_number_sign env req1)"

subsection \<open>\<open>GET /api/bookings/host/:hostName\<close>\<close>

definition host_shopifyParams :: "request \<Rightarrow> order_params" where
  "host_shopifyParams req =
     \<lparr>p_limit = Some (limit_or 50 (q_limit req)), p_status = Some ''any'',
      p_email = (if truthy (q_customer_email req) then q_customer_email req else None)\<rparr>"

definition host_filters :: "request \<Rightarrow> booking list \<Rightarrow> booking list" where
  "host_filters req hostOrders =
     (let filtered1 = (if truthy (q_event_date req)
                       then filter (\<lambda>order. eventDate order = q_event_date req) hostOrders
                       else hostOrders)
      in if truthy (q_cowlendar_id req)
         then filter (\<lambda>order. cowlendarId order = q_cowlendar_id req) filtered1
         else filtered1)"

definition host_handler ::
  "shopify_client \<Rightarrow> 'm moment_lib \<Rightarrow> env \<Rightarrow> request \<Rightarrow> response" where
  "host_handler client lib env req =
     (case getOrdersByHost client lib (getenv env ''COWLENDAR_METADATA_PREFIX'')
             (param_hostName req) (host_shopifyParams req) of
        Inl error \<Rightarrow> Json_error 500 ''Failed to fetch host bookings'' (error_message error)
      | Inr hostOrders \<Rightarrow> Json_bookings (host_filters req hostOrders))"

text \<open>\<open>router.get('/host/:hostName', authenticateApiKey, validateHostAccess, handler)\<close>\<close>

definition host_route ::
  "shopify_client \<Rightarrow> 'm moment_lib \<Rightarrow> env \<Rightarrow> request \<Rightarrow> response" where
  "host_route client lib env req =
     (case authenticateApiKey env req of
        Respond r \<Rightarrow> r
      | Next req1 \<Rightarrow>
          (case validateHostAccess req1 of
             Respond r \<Rightarrow> r
           | Next req2 \<Rightarrow> host_handler client lib env req2))"

subsection \<open>\<open>GET /api/orders/:orderId\<close>\<close>

text \<open>The handler tests \<open>hasCowlendarMetadata\<close> before it normalises the order; an
  error of \<open>getOrderById\<close> is answered with 404, any other with 500.\<close>

definition order_handler ::
  "shopify_client \<Rightarrow> 'm moment_lib \<Rightarrow> env \<Rightarrow> request \<Rightarrow> response" where
  "order_handler client lib env req =
     (let orderId = param_orderId req
      in case getOrderById client orderId of
           Inl error \<Rightarrow>
             if str_includes (error_message error) ''Failed to fetch order''
             then Json_error 404 ''Order not found'' (''Order '' @ orderId @ '' not found'')
             else Json_error 500 ''Failed to fetch order'' (error_message error)
         | Inr order \<Rightarrow>
             if \<not> hasCowlendarMetadata (getenv env ''COWLENDAR_METADATA_PREFIX'') order
             then Json_error 404 ''Order not found''
                    (''Order '' @ orderId @ '' is not a bookable event order'')
             else Json_booking (parseOrderWithCowlendar client lib order))"

text \<open>\<open>router.get('/:orderId', authenticateApiKey, handler)\<close>\<close>

definition order_route ::
  "shopify_client \<Rightarrow> 'm moment_lib \<Rightarrow> env \<Rightarrow> request \<Rightarrow> response" where
  "order_route client lib env req =
     (case authenticateApiKey env req of
        Respond r \<Rightarrow> r
      | Next req1 \<Rightarrow> order_handler client lib env req1)"

subsection \<open>\<open>GET /api/bookings\<close>\<close>

definition bookings_shopifyParams :: "request \<Rightarrow> order_params" where
  "bookings_shopifyParams req =
     \<lparr>p_limit = Some (limit_or 50 (q_limit req)), p_status = Some ''any'',
      p_email = (if truthy (q_customer_email req) then q_customer_email req else None)\<rparr>"

text \<open>
  With \<open>order_id\<close> the handler fetches that order, normalises it and answers with it
  as the only booking. Otherwise it queries the event orders, of the host when \<open>host\<close>
  is given, and applies the filters on the event date and on the Cowlendar id, the same
  two as \<open>GET /api/bookings/host/:hostName\<close>.
\<close>

definition bookings_handler ::
  "shopify_client \<Rightarrow> 'm moment_lib \<Rightarrow> env \<Rightarrow> request \<Rightarrow> response" where
  "bookings_handler client lib env req =
     (let shopifyParams = bookings_shopifyParams req;
          env_prefix = getenv env ''COWLENDAR_METADATA_PREFIX''
      in if truthy (q_order_id req)
         then (case getOrderById client (the (q_order_id req)) of
                 Inl error \<Rightarrow> Json_error 500 ''Failed to fetch bookings'' (error_message error)
               | Inr order \<Rightarrow> Json_bookings [parseOrderWithCowlendar client lib order])
         else (case (if truthy (q_host req)
                     then getOrdersByHost client lib env_prefix (the (q_host req)) shopifyParams
                     else getEventOrders client lib env_prefix shopifyParams None) of
                 Inl error \<Rightarrow> Json_error 500 ''Failed to fetch bookings'' (error_message error)
               | Inr eventOrders \<Rightarrow> Json_bookings (host_filters req eventOrders)))"

text \<open>\<open>router.get('/', authenticateApiKey, handler)\<close>\<close>

definition bookings_route ::
  "shopify_client \<Rightarrow> 'm moment_lib \<Rightarrow> env \<Rightarrow> request \<Rightarrow> response" where
  "bookings_route client lib env req =
     (case authenticateApiKey env req of
        Respond r \<Rightarrow> r
      | Next req1 \<Rightarrow> bookings_handler client lib env req1)"

section \<open>Webhook signatures: \<open>verifyWebhookSignature\<close>\<close>

text \<open>\<open>crypto.timingSafeEqual\<close> on the bytes of two strings: it throws when the lengths
  differ.\<close>

definition timingSafeEqual :: "string \<Rightarrow> string \<Rightarrow> js_error + bool" where
  "timingSafeEqual a b =
     (if length a \<noteq> length b
      then Inl (RangeError ''Input buffers must have the same byte length'')
      else Inr (a = b))"

text \<open>
  The \<open>try\<close> block. \<open>hmac secret payload\<close> is the hexadecimal HMAC-SHA256 of the payload
  under the secret, computed by the \<open>crypto\<close> module: a parameter. A request without a
  signature header has \<open>signature = undefined\<close>, and \<open>signature.replace\<close> throws.
\<close>

definition verify_try ::
  "(string \<Rightarrow> string \<Rightarrow> string) \<Rightarrow> string \<Rightarrow> string \<Rightarrow> string option \<Rightarrow> js_error + bool" where
  "verify_try hmac secret payload signature =
     (let expectedSignature = hmac secret payload
      in case signature of
           None \<Rightarrow> Inl (TypeError ''Cannot read properties of undefined'')
         | Some sig \<Rightarrow>
             (let providedSignature = replace_first ''sha256='' [] sig
              in timingSafeEqual expectedSignature providedSignature))"

definition verifyWebhookSignature ::
  "(string \<Rightarrow> string \<Rightarrow> string) \<Rightarrow> string option \<Rightarrow> string \<Rightarrow> string option \<Rightarrow> bool" where
  "verifyWebhookSignature hmac webhookSecret payload signature =
     (if \<not> truthy webhookSecret then True
      else (case verify_try hmac (the webhookSecret) payload signature of
              Inl error \<Rightarrow> False
            | Inr equal \<Rightarrow> equal))"

section \<open>The claims in the words of the specification\<close>

text \<open>An optional sequence as a sequence: absent is empty.\<close>

definition opt_list :: "'a list option \<Rightarrow> 'a list" where
  "opt_list xs = (case xs of None \<Rightarrow> [] | Some ys \<Rightarrow> ys)"

subsection \<open>Qualification\<close>

text \<open>The key of an attribute starts with the prefix.\<close>

definition key_has_prefix :: "string \<Rightarrow> attribute \<Rightarrow> bool" where
  "key_has_prefix pre a = (case attr_name a of None \<Rightarrow> False | Some n \<Rightarrow> prefix pre n)"

text \<open>At least one note attribute or at least one line-item property has a key that
  starts with the prefix.\<close>

definition carries_cowlendar_key :: "string \<Rightarrow> raw_order \<Rightarrow> bool" where
  "carries_cowlendar_key pre order =
     ((\<exists>a \<in> set (opt_list (note_attributes order)). key_has_prefix pre a) \<or>
      (\<exists>item \<in> set (opt_list (line_items order)).
         \<exists>p \<in> set (opt_list (li_properties item)). key_has_prefix pre p))"

subsection \<open>Extraction\<close>

text \<open>The combined scan: the note attributes first, then the properties of each line
  item, in sequence order.\<close>

definition scan_order :: "raw_order \<Rightarrow> attribute list" where
  "scan_order order =
     opt_list (note_attributes order) @
     concat (map (\<lambda>item. opt_list (li_properties item)) (opt_list (line_items order)))"

text \<open>The value of the last attribute of a scan that matches, \<open>null\<close> when none does.\<close>

definition last_value :: "(attribute \<Rightarrow> bool) \<Rightarrow> attribute list \<Rightarrow> string option" where
  "last_value P attrs = (case filter P attrs of [] \<Rightarrow> None | a # as \<Rightarrow> attr_value (last (a # as)))"

definition is_internal_id_key :: "attribute \<Rightarrow> bool" where
  "is_internal_id_key a = (attr_name a = Some ''__cow_internal_id'')"

definition is_integrity_key :: "attribute \<Rightarrow> bool" where
  "is_integrity_key a = (attr_name a = Some ''__cow_integrity'')"

text \<open>The exact key \<open>Date\<close>, or a key whose lower-case form contains \<open>data\<close>.\<close>

definition is_schedule_key :: "attribute \<Rightarrow> bool" where
  "is_schedule_key a =
     (attr_name a = Some ''Date'' \<or>
      (case attr_name a of None \<Rightarrow> False | Some n \<Rightarrow> str_includes (toLowerCase n) ''data''))"

text \<open>The field a scan has reached from a starting value: the value of the last match
  so far, or the starting value.\<close>

definition last_value_from :: "string option \<Rightarrow> (attribute \<Rightarrow> bool) \<Rightarrow> attribute list \<Rightarrow> string option" where
  "last_value_from v P attrs = (case filter P attrs of [] \<Rightarrow> v | a # as \<Rightarrow> attr_value (last (a # as)))"

text \<open>The metadata object of \<open>extractCowlendarMetadata\<close> after the note attributes.\<close>

definition after_notes :: "raw_order \<Rightarrow> metadata" where
  "after_notes order =
     (case note_attributes order of
        None \<Rightarrow> \<lparr>eventData = None, internalId = None, integrity = None\<rparr>
      | Some attrs \<Rightarrow>
          if length attrs > 0
          then processAttributes attrs \<lparr>eventData = None, internalId = None, integrity = None\<rparr>
          else \<lparr>eventData = None, internalId = None, integrity = None\<rparr>)"

subsection \<open>The schedule grammar\<close>

text \<open>\<open>HH:MM\<close>: two digits, a colon, two digits.\<close>

definition is_time_text :: "string \<Rightarrow> bool" where
  "is_time_text t =
     (case t of
        [a, b, c, d, e] \<Rightarrow> is_digit a \<and> is_digit b \<and> c = CHR '':'' \<and> is_digit d \<and> is_digit e
      | _ \<Rightarrow> False)"

text \<open>
  The string starts with \<open><datepart>, <HH:MM> - <HH:MM>\<close>: a date part that is not
  empty and has no line terminator, a comma, and the two times around a hyphen, each gap
  any amount of white space.
\<close>

definition matches_schedule_grammar :: "string \<Rightarrow> bool" where
  "matches_schedule_grammar s =
     (\<exists>datePart w1 t1 w2 w3 t2 rest.
        s = datePart @ '','' @ w1 @ t1 @ w2 @ ''-'' @ w3 @ t2 @ rest \<and>
        datePart \<noteq> [] \<and> (\<forall>c \<in> set datePart. \<not> is_line_terminator c) \<and>
        (\<forall>c \<in> set w1. is_space c) \<and> (\<forall>c \<in> set w2. is_space c) \<and> (\<forall>c \<in> set w3. is_space c) \<and>
        is_time_text t1 \<and> is_time_text t2)"

text \<open>The string ends with a parenthesized group that is not empty.\<close>

definition some_timezone_group :: "string \<Rightarrow> bool" where
  "some_timezone_group s =
     (\<exists>before z. s = before @ ''('' @ z @ '')'' \<and> z \<noteq> [] \<and> CHR '')'' \<notin> set z)"

subsection \<open>Providers\<close>

text \<open>The vendor of the first line item.\<close>

definition first_vendor :: "raw_order \<Rightarrow> string option" where
  "first_vendor order = (case opt_list (line_items order) of [] \<Rightarrow> None | item # _ \<Rightarrow> li_vendor item)"

text \<open>Neither \<open>null\<close> nor the empty string.\<close>

definition present :: "string option \<Rightarrow> bool" where
  "present v = (v \<noteq> None \<and> v \<noteq> Some [])"

text \<open>A value equals a name when case is ignored.\<close>

definition equal_ignoring_case :: "string option \<Rightarrow> string \<Rightarrow> bool" where
  "equal_ignoring_case v name = (case v of None \<Rightarrow> False | Some x \<Rightarrow> toLowerCase x = toLowerCase name)"

text \<open>The union of the provider filter: the resolved provider matches the name, or the
  vendor of some line item does.\<close>

definition provider_or_vendor_matches :: "string \<Rightarrow> booking \<Rightarrow> bool" where
  "provider_or_vendor_matches name b =
     (equal_ignoring_case (provider b) name \<or>
      (\<exists>item \<in> set (lineItems b). equal_ignoring_case (item_vendor item) name))"

subsection \<open>Queries\<close>

text \<open>
  The orders that the handler of \<open>GET /api/orders\<close> keeps of the event orders of the
  store: the filter of \<open>getOrdersByProvider\<close> when a provider is given, then the date
  filters.
\<close>

definition query :: "(string \<Rightarrow> number_sign) \<Rightarrow> request \<Rightarrow> booking list \<Rightarrow> booking list" where
  "query to_number_sign req bookings =
     apply_date_filters to_number_sign req
       (if truthy (q_provider req) then filter (provider_filter (the (q_provider req))) bookings
        else bookings)"

text \<open>The filter specification with one field left: the others are absent.\<close>

definition only_provider :: "request \<Rightarrow> request" where
  "only_provider req = req\<lparr>q_event_date := None, q_date_from := None, q_date_to := None\<rparr>"

definition only_event_date :: "request \<Rightarrow> request" where
  "only_event_date req = req\<lparr>q_provider := None, q_date_from := None, q_date_to := None\<rparr>"

definition only_date_from :: "request \<Rightarrow> request" where
  "only_date_from req = req\<lparr>q_provider := None, q_event_date := None, q_date_to := None\<rparr>"

definition only_date_to :: "request \<Rightarrow> request" where
  "only_date_to req = req\<lparr>q_provider := None, q_event_date := None, q_date_from := None\<rparr>"

text \<open>A booking is in the result of each of the four single-field queries.\<close>

definition in_every_single_result ::
  "(string \<Rightarrow> number_sign) \<Rightarrow> request \<Rightarrow> booking list \<Rightarrow> booking \<Rightarrow> bool" where
  "in_every_single_result to_number_sign req bookings b =
     (b \<in> set (query to_number_sign (only_provider req) bookings) \<and>
      b \<in> set (query to_number_sign (only_event_date req) bookings) \<and>
      b \<in> set (query to_number_sign (only_date_from req) bookings) \<and>
      b \<in> set (query to_number_sign (only_date_to req) bookings))"

text \<open>What each field of the filter specification asks of a booking; nothing when the
  field is absent.\<close>

definition keeps_provider :: "request \<Rightarrow> booking \<Rightarrow> bool" where
  "keeps_provider req b = (\<not> truthy (q_provider req) \<or> provider_filter (the (q_provider req)) b)"

definition keeps_event_date :: "request \<Rightarrow> booking \<Rightarrow> bool" where
  "keeps_event_date req b = (\<not> truthy (q_event_date req) \<or> eventDate b = q_event_date req)"

definition keeps_date_from :: "(string \<Rightarrow> number_sign) \<Rightarrow> request \<Rightarrow> booking \<Rightarrow> bool" where
  "keeps_date_from tns req b =
     (\<not> truthy (q_date_from req) \<or> js_ge tns (eventDate b) (the (q_date_from req)))"

definition keeps_date_to :: "(string \<Rightarrow> number_sign) \<Rightarrow> request \<Rightarrow> booking \<Rightarrow> bool" where
  "keeps_date_to tns req b =
     (\<not> truthy (q_date_to req) \<or> js_le tns (eventDate b) (the (q_date_to req)))"

subsection \<open>Host keys\<close>

text \<open>Every host name of the key table is in lower case.\<close>

definition keys_lower :: "(string \<times> string) list \<Rightarrow> bool" where
  "keys_lower al = (\<forall>k \<in> fst ` set al. toLowerCase k = k)"

section \<open>Sample data\<close>

definition attr :: "string \<Rightarrow> string \<Rightarrow> attribute" where
  "attr n v = \<lparr>attr_name = Some n, attr_value = Some v\<rparr>"

definition sample_customer :: customer where
  "sample_customer = \<lparr>first_name = Some ''John'', last_name = Some ''Doe'',
     cust_email = Some ''john@example.com'', cust_phone = None\<rparr>"

definition sample_item :: "string option \<Rightarrow> nat option \<Rightarrow> attribute list \<Rightarrow> line_item" where
  "sample_item v pid props = \<lparr>li_name = Some ''Llama Workshop'', li_quantity = Some 2,
     li_price = Some ''45.00'', li_vendor = v, li_product_id = pid, li_properties = Some props\<rparr>"

definition sample_order :: "nat \<Rightarrow> line_item list \<Rightarrow> attribute list \<Rightarrow> raw_order" where
  "sample_order n items notes = \<lparr>order_id = n, order_number = Some n, order_name = Some ''#1001'',
     order_customer = Some sample_customer, line_items = Some items, note_attributes = Some notes,
     created_at = Some ''2025-11-01T10:00:00+01:00'', financial_status = Some ''paid'',
     fulfillment_status = None\<rparr>"

text \<open>The order of the end-to-end scenario: schedule and internal id in the note
  attributes, vendor Llamas, a product (7) with no host metadata.\<close>

definition scenario_order :: raw_order where
  "scenario_order = sample_order 1 [sample_item (Some ''Llamas'') (Some 7) []]
     [attr ''Date'' ''30 nov 2025, 17:00 - 18:30 (Europe/Rome)'', attr ''__cow_internal_id'' ''abc-123'']"

text \<open>An order of the shop that is no booking.\<close>

definition plain_order :: raw_order where
  "plain_order = sample_order 2 [sample_item (Some ''Studio Marta'') (Some 7) [attr ''size'' ''M'']]
     [attr ''gift_note'' ''happy birthday'']"

text \<open>Vendor Other, a product (8) whose host metafield is Llamas; the metadata are in
  the properties of the line item.\<close>

definition hosted_order :: raw_order where
  "hosted_order = sample_order 3
     [sample_item (Some ''Other'') (Some 8)
        [attr ''__cow_internal_id'' ''def-456'', attr ''__cow_integrity'' ''f00d'',
         attr ''Date'' ''30 nov 2025, 17:00 - 18:30 (Mars/Phobos)'']]
     [attr ''Event data'' ''01 dec 2025, 10:00 - 11:00'', attr ''__cow_internal_id'' ''old-1'']"

text \<open>Vendor Other, a product (9) with no host metafield and the tags
  \<open>workshop, host:\<close>.\<close>

definition blank_host_order :: raw_order where
  "blank_host_order = sample_order 4
     [sample_item (Some ''Other'') (Some 9) [attr ''__cow_internal_id'' ''ghi-789'']] []"

text \<open>A booking with neither host nor vendor.\<close>

definition anonymous_order :: raw_order where
  "anonymous_order = sample_order 5 [sample_item None None [attr ''__cow_internal_id'' ''jkl-012'']] []"

definition sample_orders :: "raw_order list" where
  "sample_orders = [scenario_order, plain_order, hosted_order, blank_host_order, anonymous_order]"

text \<open>A store with these five orders, under the ids 1 to 5, and the three products.\<close>

definition sample_client :: shopify_client where
  "sample_client =
     \<lparr>get_orders = (\<lambda>qp. Inr sample_orders),
      get_order = (\<lambda>orderId.
        case map_of (zip [''1'', ''2'', ''3'', ''4'', ''5''] sample_orders) orderId of
          Some order \<Rightarrow> Inr order
        | None \<Rightarrow> Inl (Error ''Request failed with status code 404'')),
      get_metafields = (\<lambda>pid.
        if pid = 8 then Inr [\<lparr>mf_key = Some ''host'', mf_namespace = Some ''custom'', mf_value = Some ''Llamas''\<rparr>]
        else if pid = 7 \<or> pid = 9 then Inr []
        else Inl (Error ''Request failed with status code 404'')),
      get_product = (\<lambda>pid.
        if pid = 9 then Inr \<lparr>product_tags = Some ''workshop, host:''\<rparr>
        else if pid = 7 then Inr \<lparr>product_tags = Some ''workshop''\<rparr>
        else Inl (Error ''Request failed with status code 404''))\<rparr>"

text \<open>
  A stand-in for the date library in the examples: a moment is the date text and the
  zone it was built from; the answers for the schedules of the sample orders are in two
  tables, every other date is answered as an invalid one. A zone the library has no data
  for is read as UTC, as \<open>moment-timezone\<close> does after logging that it has no data.
\<close>

definition sample_dates :: "(string \<times> string) list" where
  "sample_dates = [(''30 nov 2025'', ''2025-11-30''), (''01 dec 2025'', ''2025-12-01'')]"

definition sample_instants :: "((string \<times> string \<times> string) \<times> string) list" where
  "sample_instants =
     [((''30 nov 2025'', ''Europe/Rome'', ''17:00''), ''2025-11-30T16:00:00.000Z''),
      ((''30 nov 2025'', ''Europe/Rome'', ''18:30''), ''2025-11-30T17:30:00.000Z''),
      ((''30 nov 2025'', ''Mars/Phobos'', ''17:00''), ''2025-11-30T17:00:00.000Z''),
      ((''30 nov 2025'', ''Mars/Phobos'', ''18:30''), ''2025-11-30T18:30:00.000Z''),
      ((''01 dec 2025'', ''UTC'', ''10:00''), ''2025-12-01T10:00:00.000Z''),
      ((''01 dec 2025'', ''UTC'', ''11:00''), ''2025-12-01T11:00:00.000Z'')]"

definition sample_moment :: "(string \<times> string) moment_lib" where
  "sample_moment =
     \<lparr>moment_tz = (\<lambda>input format zone. Inr (input, zone)),
      moment_format = (\<lambda>m format.
        Inr (case map_of sample_dates (fst m) of Some d \<Rightarrow> d | None \<Rightarrow> ''Invalid date'')),
      moment_add_iso = (\<lambda>m t. Inr (map_of sample_instants (fst m, snd m, t)))\<rparr>"

definition no_params :: order_params where
  "no_params = \<lparr>p_limit = None, p_status = None, p_email = None\<rparr>"

text \<open>A deployment with a global key and the key of the host \<open>llamas\<close>.\<close>

definition sample_env :: env where
  "sample_env = [(''API_KEY'', ''global_key_123''), (''HOST_API_KEY_LLAMAS'', ''llamas_test_key_456''),
     (''NODE_ENV'', ''production'')]"

definition blank_request :: request where
  "blank_request = \<lparr>header_api_key = None, query_api_key = None, param_hostName = [],
     param_orderId = [],
     q_provider = None, q_customer_email = None, q_event_date = None, q_date_from = None,
     q_date_to = None, q_cowlendar_id = None, q_host = None, q_order_id = None,
     q_limit = None, q_status = None,
     authenticatedAs = None, authenticatedHost = None\<rparr>"

text \<open>No query string of the examples converts to a number.\<close>

definition sample_sign :: "string \<Rightarrow> number_sign" where
  "sample_sign s = NotANumber"

text \<open>A stand-in for the keyed hash in the examples: it is no HMAC, only a function
  of the secret and the payload with 64 characters.\<close>

definition sample_hmac :: "string \<Rightarrow> string \<Rightarrow> string" where
  "sample_hmac secret payload = take 64 (secret @ payload @ replicate 64 CHR ''0'')"

text \<open>A request with the global key.\<close>

definition global_request :: request where
  "global_request = blank_request\<lparr>header_api_key := Some ''global_key_123''\<rparr>"

text \<open>A request with the key of the host \<open>llamas\<close>.\<close>

definition llamas_request :: request where
  "llamas_request = blank_request\<lparr>header_api_key := Some ''llamas_test_key_456''\<rparr>"

text \<open>The bookings of the sample store, and a query for the provider \<open>other\<close> on
  30 November 2025.\<close>

definition sample_bookings :: "booking list" where
  "sample_bookings = map (parseOrderWithCowlendar sample_client sample_moment)
     [scenario_order, hosted_order, blank_host_order, anonymous_order]"

definition other_november_request :: request where
  "other_november_request = blank_request\<lparr>q_provider := Some ''other'',
     q_event_date := Some ''2025-11-30'', q_date_from := Some ''2025-11-01''\<rparr>"

section \<open>Verification\<close>

subsection \<open>Strings\<close>

lemma startsWith_prefix: "startsWith s p \<longleftrightarrow> prefix p s"
  unfolding startsWith_def
  by (metis append_eq_conv_conj prefix_def)

lemma lower_not_upper: "d \<in> set lower_letters \<Longrightarrow> d \<notin> set upper_letters"
  by (auto simp: upper_letters_def lower_letters_def)

lemma lower_char_idem: "lower_char (lower_char c) = lower_char c"
proof (cases "map_of (zip upper_letters lower_letters) c")
  case None
  then show ?thesis by (simp add: lower_char_def)
next
  case (Some d)
  then have "d \<in> set lower_letters"
    by (auto dest!: map_of_SomeD set_zip_rightD)
  then have "d \<notin> set upper_letters" by (rule lower_not_upper)
  then have "map_of (zip upper_letters lower_letters) d = None"
    by (auto simp: map_of_eq_None_iff dest: set_zip_leftD)
  with Some show ?thesis by (simp add: lower_char_def)
qed

lemma toLowerCase_idem: "toLowerCase (toLowerCase s) = toLowerCase s"
  by (simp add: toLowerCase_def lower_char_idem)

lemma toLowerCase_Nil_iff: "toLowerCase x = toLowerCase name \<Longrightarrow> name \<noteq> [] \<Longrightarrow> x \<noteq> []"
  by (auto simp: toLowerCase_def)

subsection \<open>The event orders of the store\<close>

lemma getEventOrders_Inr:
  "getOrders client params = Inr orders \<Longrightarrow>
   getEventOrders client lib env_prefix params None =
     Inr (map (parseOrderWithCowlendar client lib) (filter (hasCowlendarMetadata env_prefix) orders))"
  by (simp add: getEventOrders_def bind_err_def Let_def)

lemma getEventOrders_Inl:
  "getOrders client params = Inl e \<Longrightarrow> getEventOrders client lib env_prefix params hostFilter = Inl e"
  by (simp add: getEventOrders_def bind_err_def)

lemma sample_getOrders: "getOrders sample_client no_params = Inr sample_orders"
  by code_simp

lemma sample_bookable:
  "filter (hasCowlendarMetadata None) sample_orders =
     [scenario_order, hosted_order, blank_host_order, anonymous_order]"
  by code_simp

lemma sample_event_orders:
  "getEventOrders sample_client sample_moment None no_params None =
     Inr (map (parseOrderWithCowlendar sample_client sample_moment)
            [scenario_order, hosted_order, blank_host_order, anonymous_order])"
  using getEventOrders_Inr[OF sample_getOrders, of sample_moment None] sample_bookable by simp

subsection \<open>Qualification (C2)\<close>

lemma cowlendar_prefix_nonempty: "cowlendar_prefix e \<noteq> []"
  by (cases e) (auto simp: cowlendar_prefix_def js_or_def)

lemma has_prefixed_name_iff:
  "pre \<noteq> [] \<Longrightarrow> has_prefixed_name pre a \<longleftrightarrow> key_has_prefix pre a"
  by (auto simp: has_prefixed_name_def key_has_prefix_def startsWith_prefix split: option.splits)

lemma item_has_metadata_iff:
  "pre \<noteq> [] \<Longrightarrow> item_has_metadata pre item \<longleftrightarrow>
     (\<exists>p \<in> set (opt_list (li_properties item)). key_has_prefix pre p)"
  by (auto simp: item_has_metadata_def opt_list_def list_ex_iff has_prefixed_name_iff
      split: option.splits)

lemma some_nonempty_ex:
  "(case xs of None \<Rightarrow> False | Some ys \<Rightarrow> length ys > 0 \<and> list_ex P ys) \<longleftrightarrow>
     (\<exists>y \<in> set (opt_list xs). P y)"
  by (cases xs) (auto simp: opt_list_def list_ex_iff)

lemma some_nonempty_ex_if:
  "(case xs of None \<Rightarrow> False | Some ys \<Rightarrow> if length ys > 0 then list_ex P ys else False) \<longleftrightarrow>
     (\<exists>y \<in> set (opt_list xs). P y)"
  by (cases xs) (auto simp: opt_list_def list_ex_iff)

lemma hasCowlendarMetadata_carries:
  "hasCowlendarMetadata e order \<longleftrightarrow> carries_cowlendar_key (cowlendar_prefix e) order"
proof -
  let ?pre = "cowlendar_prefix e"
  have pre: "?pre \<noteq> []" by (rule cowlendar_prefix_nonempty)
  have "hasCowlendarMetadata e order \<longleftrightarrow>
      (\<exists>a \<in> set (opt_list (note_attributes order)). has_prefixed_name ?pre a) \<or>
      (\<exists>item \<in> set (opt_list (line_items order)). item_has_metadata ?pre item)"
    unfolding hasCowlendarMetadata_def Let_def some_nonempty_ex some_nonempty_ex_if by auto
  then show ?thesis
    by (simp add: carries_cowlendar_key_def has_prefixed_name_iff[OF pre]
        item_has_metadata_iff[OF pre])
qed

lemma cowlendar_prefix_default: "cowlendar_prefix None = ''__cow_''"
  by (simp add: cowlendar_prefix_def js_or_def)

lemma cowlendar_prefix_configured: "p \<noteq> [] \<Longrightarrow> cowlendar_prefix (Some p) = p"
  by (simp add: cowlendar_prefix_def js_or_def)

text \<open>
  An order qualifies as a booking if and only if at least one note attribute or at least
  one line-item property has a key that starts with the configured prefix, which is
  \<open>__cow_\<close> when none is configured; and the listing query of the service,
  \<open>getEventOrders\<close>, returns the normalised qualifying orders and nothing else.
\<close>

lemma qualifies_iff_cowlendar_key:
  "(hasCowlendarMetadata env_prefix order \<longleftrightarrow>
      carries_cowlendar_key (cowlendar_prefix env_prefix) order) \<and>
   cowlendar_prefix None = ''__cow_'' \<and>
   (p \<noteq> [] \<longrightarrow> cowlendar_prefix (Some p) = p) \<and>
   (getOrders client params = Inr orders \<longrightarrow>
      getEventOrders client lib env_prefix params None =
        Inr (map (parseOrderWithCowlendar client lib)
               (filter (carries_cowlendar_key (cowlendar_prefix env_prefix)) orders)))"
proof -
  have "filter (hasCowlendarMetadata env_prefix) orders =
        filter (carries_cowlendar_key (cowlendar_prefix env_prefix)) orders"
    by (rule filter_cong) (simp_all add: hasCowlendarMetadata_carries)
  then show ?thesis
    by (simp add: hasCowlendarMetadata_carries cowlendar_prefix_default
        cowlendar_prefix_configured getEventOrders_Inr)
qed

lemma sample_carries:
  "carries_cowlendar_key ''__cow_'' scenario_order"
  "\<not> carries_cowlendar_key ''__cow_'' plain_order"
  "filter (carries_cowlendar_key ''__cow_'') sample_orders =
     [scenario_order, hosted_order, blank_host_order, anonymous_order]"
  by code_simp+

lemma sample_qualification:
  "carries_cowlendar_key ''__cow_'' scenario_order \<and> hasCowlendarMetadata None scenario_order \<and>
   \<not> carries_cowlendar_key ''__cow_'' plain_order \<and> \<not> hasCowlendarMetadata None plain_order \<and>
   getEventOrders sample_client sample_moment None no_params None =
     Inr (map (parseOrderWithCowlendar sample_client sample_moment)
            [scenario_order, hosted_order, blank_host_order, anonymous_order])"
  using qualifies_iff_cowlendar_key[of None scenario_order "''__cow_''" sample_client no_params
      sample_orders sample_moment]
    qualifies_iff_cowlendar_key[of None plain_order "''__cow_''" sample_client no_params
      sample_orders sample_moment]
    sample_carries sample_getOrders
  by simp

text \<open>The handler of \<open>GET /api/orders/:orderId\<close> answers 404 for an order that does
  not qualify.\<close>

lemma order_handler_excludes:
  "getOrderById client (param_orderId req) = Inr order \<Longrightarrow>
   \<not> hasCowlendarMetadata (getenv env ''COWLENDAR_METADATA_PREFIX'') order \<Longrightarrow>
   order_handler client lib env req =
     Json_error 404 ''Order not found''
       (''Order '' @ param_orderId req @ '' is not a bookable event order'')"
  by (simp add: order_handler_def Let_def)

text \<open>The handler of \<open>GET /api/bookings\<close> with \<open>order_id\<close> answers with the
  normalised order whether it qualifies or not.\<close>

lemma bookings_handler_order_id:
  "truthy (q_order_id req) \<Longrightarrow> getOrderById client (the (q_order_id req)) = Inr order \<Longrightarrow>
   bookings_handler client lib env req = Json_bookings [parseOrderWithCowlendar client lib order]"
  by (simp add: bookings_handler_def Let_def)

text \<open>
  Claim C2 does not hold on \<open>GET /api/bookings?order_id=2\<close>. Order 2 of the sample
  store has no key with the prefix \<open>__cow_\<close> in its note attributes or line-item
  properties and does not qualify, and the listing query leaves it out; yet the route
  answers with it as a booking, while \<open>GET /api/orders/2\<close> answers 404.
\<close>

theorem bookings_route_includes_plain_order:
  "\<not> carries_cowlendar_key ''__cow_'' plain_order \<and>
   hasCowlendarMetadata (getenv sample_env ''COWLENDAR_METADATA_PREFIX'') plain_order = False \<and>
   bookings_route sample_client sample_moment sample_env (global_request\<lparr>q_order_id := Some ''2''\<rparr>) =
     Json_bookings [parseOrderWithCowlendar sample_client sample_moment plain_order] \<and>
   order_route sample_client sample_moment sample_env (global_request\<lparr>param_orderId := ''2''\<rparr>) =
     Json_error 404 ''Order not found'' ''Order 2 is not a bookable event order'' \<and>
   bookings_route sample_client sample_moment sample_env global_request =
     Json_bookings (map (parseOrderWithCowlendar sample_client sample_moment)
                      [scenario_order, hosted_order, blank_host_order, anonymous_order])"
  by code_simp

subsection \<open>Extraction (C4)\<close>

lemma last_value_from_Nil [simp]: "last_value_from v P [] = v"
  by (simp add: last_value_from_def)

lemma last_value_from_Cons:
  "last_value_from v P (a # as) = last_value_from (if P a then attr_value a else v) P as"
  by (simp add: last_value_from_def split: list.splits)

lemma last_value_from_append:
  "last_value_from v P (xs @ ys) = last_value_from (last_value_from v P xs) P ys"
  by (induction xs arbitrary: v) (simp_all add: last_value_from_Cons)

lemma last_value_from_None: "last_value_from None P attrs = last_value P attrs"
  by (simp add: last_value_from_def last_value_def)

lemma cow_keys_no_data:
  "\<not> str_includes (toLowerCase ''__cow_internal_id'') ''data''"
  "\<not> str_includes (toLowerCase ''__cow_integrity'') ''data''"
  by (simp_all add: toLowerCase_def lower_char_def upper_letters_def lower_letters_def startsWith_def)

lemma name_includes_data_iff:
  "name_includes_data a \<longleftrightarrow>
     (case attr_name a of None \<Rightarrow> False | Some n \<Rightarrow> str_includes (toLowerCase n) ''data'')"
  by (auto simp: name_includes_data_def toLowerCase_def split: option.splits)

lemma process_attribute_fields:
  "internalId (process_attribute a m) = (if is_internal_id_key a then attr_value a else internalId m)"
  "integrity (process_attribute a m) = (if is_integrity_key a then attr_value a else integrity m)"
  "eventData (process_attribute a m) = (if is_schedule_key a then attr_value a else eventData m)"
  using cow_keys_no_data
  by (auto simp: process_attribute_def is_internal_id_key_def is_integrity_key_def
      is_schedule_key_def name_includes_data_iff split: option.splits)

lemma processAttributes_fields:
  "internalId (processAttributes attrs m) = last_value_from (internalId m) is_internal_id_key attrs"
  "integrity (processAttributes attrs m) = last_value_from (integrity m) is_integrity_key attrs"
  "eventData (processAttributes attrs m) = last_value_from (eventData m) is_schedule_key attrs"
  unfolding processAttributes_def
  by (induction attrs arbitrary: m) (simp_all add: last_value_from_Cons process_attribute_fields)

lemma process_item_fields:
  "internalId (process_item item m) =
     last_value_from (internalId m) is_internal_id_key (opt_list (li_properties item))"
  "integrity (process_item item m) =
     last_value_from (integrity m) is_integrity_key (opt_list (li_properties item))"
  "eventData (process_item item m) =
     last_value_from (eventData m) is_schedule_key (opt_list (li_properties item))"
  by (auto simp: process_item_def opt_list_def processAttributes_fields split: option.splits)

lemma fold_process_item_fields:
  "internalId (fold process_item items m) =
     last_value_from (internalId m) is_internal_id_key
       (concat (map (\<lambda>item. opt_list (li_properties item)) items))"
  "integrity (fold process_item items m) =
     last_value_from (integrity m) is_integrity_key
       (concat (map (\<lambda>item. opt_list (li_properties item)) items))"
  "eventData (fold process_item items m) =
     last_value_from (eventData m) is_schedule_key
       (concat (map (\<lambda>item. opt_list (li_properties item)) items))"
  by (induction items arbitrary: m) (simp_all add: last_value_from_append process_item_fields)

lemma after_notes_fields:
  "internalId (after_notes order) = last_value_from None is_internal_id_key (opt_list (note_attributes order))"
  "integrity (after_notes order) = last_value_from None is_integrity_key (opt_list (note_attributes order))"
  "eventData (after_notes order) = last_value_from None is_schedule_key (opt_list (note_attributes order))"
  by (auto simp: after_notes_def opt_list_def processAttributes_fields split: option.splits)

lemma extract_after_notes:
  "extractCowlendarMetadata order = fold process_item (opt_list (line_items order)) (after_notes order)"
  by (auto simp: extractCowlendarMetadata_def after_notes_def Let_def opt_list_def split: option.splits)

text \<open>
  Claim C4. Extraction visits the note attributes first and then the properties of each
  line item in sequence order, and each output field is the value of the last attribute
  of that combined scan that matches the field: the key \<open>__cow_internal_id\<close> for the
  internal id, the key \<open>__cow_integrity\<close> for the integrity token, the exact key
  \<open>Date\<close> or a key whose lower-case form contains \<open>data\<close> for the schedule text. A field
  that no attribute matches is \<open>null\<close>. The extraction is a function of the order: it
  changes nothing and has no failing branch.
\<close>

theorem extract_last_match:
  "internalId (extractCowlendarMetadata order) = last_value is_internal_id_key (scan_order order) \<and>
   integrity (extractCowlendarMetadata order) = last_value is_integrity_key (scan_order order) \<and>
   eventData (extractCowlendarMetadata order) = last_value is_schedule_key (scan_order order)"
  by (simp add: extract_after_notes fold_process_item_fields after_notes_fields scan_order_def
      last_value_from_append last_value_from_None[symmetric])

lemma sample_scan:
  "scan_order hosted_order =
     [attr ''Event data'' ''01 dec 2025, 10:00 - 11:00'', attr ''__cow_internal_id'' ''old-1'',
      attr ''__cow_internal_id'' ''def-456'', attr ''__cow_integrity'' ''f00d'',
      attr ''Date'' ''30 nov 2025, 17:00 - 18:30 (Mars/Phobos)'']"
  "last_value is_internal_id_key (scan_order hosted_order) = Some ''def-456''"
  "last_value is_integrity_key (scan_order hosted_order) = Some ''f00d''"
  "last_value is_schedule_key (scan_order hosted_order) =
     Some ''30 nov 2025, 17:00 - 18:30 (Mars/Phobos)''"
  "last_value is_schedule_key (scan_order anonymous_order) = None"
  by code_simp+

theorem extract_last_match_witness:
  "scan_order hosted_order =
     [attr ''Event data'' ''01 dec 2025, 10:00 - 11:00'', attr ''__cow_internal_id'' ''old-1'',
      attr ''__cow_internal_id'' ''def-456'', attr ''__cow_integrity'' ''f00d'',
      attr ''Date'' ''30 nov 2025, 17:00 - 18:30 (Mars/Phobos)''] \<and>
   internalId (extractCowlendarMetadata hosted_order) = Some ''def-456'' \<and>
   integrity (extractCowlendarMetadata hosted_order) = Some ''f00d'' \<and>
   eventData (extractCowlendarMetadata hosted_order) =
     Some ''30 nov 2025, 17:00 - 18:30 (Mars/Phobos)'' \<and>
   eventData (extractCowlendarMetadata anonymous_order) = None"
  using extract_last_match[of hosted_order] extract_last_match[of anonymous_order] sample_scan
  by simp

subsection \<open>The schedule grammar and the two regular expressions\<close>

lemma digit_not_space: "is_digit c \<Longrightarrow> \<not> is_space c"
  by (auto simp: is_digit_def is_space_def)

lemma hyphen_not_space: "\<not> is_space CHR ''-''"
  by (simp add: is_space_def)

lemma time_at_Some:
  "time_at s = Some (t, rest) \<longleftrightarrow> is_time_text t \<and> s = t @ rest"
  unfolding time_at_def is_time_text_def
  by (auto split: list.splits)

lemma is_time_text_hd: "is_time_text t \<Longrightarrow> \<exists>a u. t = a # u \<and> is_digit a"
  by (auto simp: is_time_text_def split: list.splits)

lemma dropWhile_spaces_then:
  "(\<forall>c \<in> set w. is_space c) \<Longrightarrow> \<not> is_space a \<Longrightarrow> dropWhile is_space (w @ a # u) = a # u"
  by (induction w) auto

lemma split_spaces:
  "\<exists>w. (\<forall>c \<in> set w. is_space c) \<and> s = w @ dropWhile is_space s"
  by (rule exI[of _ "takeWhile is_space s"]) (auto dest: set_takeWhileD)

lemma times_at_Some_D:
  assumes "times_at s = Some (t1, t2)"
  shows "\<exists>w1 w2 w3 rest. s = '','' @ w1 @ t1 @ w2 @ ''-'' @ w3 @ t2 @ rest \<and>
          (\<forall>c \<in> set w1. is_space c) \<and> (\<forall>c \<in> set w2. is_space c) \<and> (\<forall>c \<in> set w3. is_space c) \<and>
          is_time_text t1 \<and> is_time_text t2"
proof -
  from assms obtain r0 where s: "s = CHR '','' # r0"
    by (auto simp: times_at_def split: list.splits if_splits)
  from assms s obtain r1 where 1: "time_at (dropWhile is_space r0) = Some (t1, r1)"
    by (auto simp: times_at_def split: list.splits if_splits option.splits)
  from assms s 1 obtain r2 where 2: "dropWhile is_space r1 = CHR ''-'' # r2"
    by (auto simp: times_at_def split: list.splits if_splits option.splits)
  from assms s 1 2 obtain r3 where 3: "time_at (dropWhile is_space r2) = Some (t2, r3)"
    by (auto simp: times_at_def split: list.splits if_splits option.splits)
  obtain w1 where w1: "\<forall>c \<in> set w1. is_space c" "r0 = w1 @ dropWhile is_space r0"
    using split_spaces by blast
  obtain w2 where w2: "\<forall>c \<in> set w2. is_space c" "r1 = w2 @ dropWhile is_space r1"
    using split_spaces by blast
  obtain w3 where w3: "\<forall>c \<in> set w3. is_space c" "r2 = w3 @ dropWhile is_space r2"
    using split_spaces by blast
  from 1 have t1: "is_time_text t1" "dropWhile is_space r0 = t1 @ r1"
    by (simp_all add: time_at_Some)
  from 3 have t2: "is_time_text t2" "dropWhile is_space r2 = t2 @ r3"
    by (simp_all add: time_at_Some)
  have "s = '','' @ w1 @ t1 @ w2 @ ''-'' @ w3 @ t2 @ r3"
    using s w1(2) w2(2) w3(2) t1(2) t2(2) 2 by (metis append_Cons append_Nil)
  with w1(1) w2(1) w3(1) t1(1) t2(1) show ?thesis by blast
qed

lemma times_at_grammar:
  assumes "\<forall>c \<in> set w1. is_space c" "\<forall>c \<in> set w2. is_space c" "\<forall>c \<in> set w3. is_space c"
    and "is_time_text t1" "is_time_text t2"
  shows "times_at ('','' @ w1 @ t1 @ w2 @ ''-'' @ w3 @ t2 @ rest) = Some (t1, t2)"
proof -
  obtain a u where t1: "t1 = a # u" "is_digit a" using is_time_text_hd[OF assms(4)] by blast
  obtain b v where t2: "t2 = b # v" "is_digit b" using is_time_text_hd[OF assms(5)] by blast
  have d1: "dropWhile is_space (w1 @ t1 @ w2 @ ''-'' @ w3 @ t2 @ rest) = t1 @ w2 @ ''-'' @ w3 @ t2 @ rest"
    using dropWhile_spaces_then[OF assms(1) digit_not_space[OF t1(2)]] t1(1) by simp
  have d2: "dropWhile is_space (w2 @ ''-'' @ w3 @ t2 @ rest) = CHR ''-'' # w3 @ t2 @ rest"
    using dropWhile_spaces_then[OF assms(2) hyphen_not_space] by simp
  have d3: "dropWhile is_space (w3 @ t2 @ rest) = t2 @ rest"
    using dropWhile_spaces_then[OF assms(3) digit_not_space[OF t2(2)]] t2(1) by simp
  have a1: "time_at (t1 @ w2 @ ''-'' @ w3 @ t2 @ rest) = Some (t1, w2 @ ''-'' @ w3 @ t2 @ rest)"
    using assms(4) by (simp add: time_at_Some)
  have a2: "time_at (t2 @ rest) = Some (t2, rest)"
    using assms(5) by (simp add: time_at_Some)
  show ?thesis
    unfolding times_at_def using d1 d2 d3 a1 a2 by simp
qed

lemma date_group_Some_D:
  "date_group pre s = Some (d, t1, t2) \<Longrightarrow>
     \<exists>datePart tail. d = pre @ datePart \<and> datePart \<noteq> [] \<and>
        (\<forall>c \<in> set datePart. \<not> is_line_terminator c) \<and> s = datePart @ tail \<and>
        times_at tail = Some (t1, t2)"
proof (induction s arbitrary: pre)
  case Nil
  then show ?case by simp
next
  case (Cons c cs)
  from Cons.prems have nlt: "\<not> is_line_terminator c" by (auto split: if_splits)
  show ?case
  proof (cases "times_at cs")
    case (Some p)
    with Cons.prems nlt have "d = pre @ [c]" "times_at cs = Some (t1, t2)"
      by (auto split: prod.splits)
    with nlt show ?thesis
      by (intro exI[of _ "[c]"] exI[of _ cs]) simp
  next
    case None
    with Cons.prems nlt have "date_group (pre @ [c]) cs = Some (d, t1, t2)" by simp
    from Cons.IH[OF this] obtain dp tail where
      "d = (pre @ [c]) @ dp" "dp \<noteq> []" "\<forall>x \<in> set dp. \<not> is_line_terminator x"
      "cs = dp @ tail" "times_at tail = Some (t1, t2)" by blast
    with nlt show ?thesis
      by (intro exI[of _ "c # dp"] exI[of _ tail]) simp
  qed
qed

lemma date_group_grammar:
  "datePart \<noteq> [] \<Longrightarrow> \<forall>c \<in> set datePart. \<not> is_line_terminator c \<Longrightarrow>
   times_at tail \<noteq> None \<Longrightarrow> date_group pre (datePart @ tail) \<noteq> None"
proof (induction datePart arbitrary: pre)
  case Nil
  then show ?case by simp
next
  case (Cons c cs)
  show ?case
  proof (cases "cs = []")
    case True
    with Cons.prems show ?thesis by (auto split: option.splits)
  next
    case False
    with Cons.prems Cons.IH[of "pre @ [c]"] show ?thesis
      by (auto split: option.splits)
  qed
qed

text \<open>The matcher of the date and the two times accepts exactly the strings of the
  schedule grammar.\<close>

lemma dateTimeMatch_grammar: "dateTimeMatch s \<noteq> None \<longleftrightarrow> matches_schedule_grammar s"
proof
  assume "dateTimeMatch s \<noteq> None"
  then obtain d t1 t2 where "date_group [] s = Some (d, t1, t2)"
    by (auto simp: dateTimeMatch_def)
  from date_group_Some_D[OF this] obtain dp tail where dp:
    "dp \<noteq> []" "\<forall>c \<in> set dp. \<not> is_line_terminator c" "s = dp @ tail" "times_at tail = Some (t1, t2)"
    by blast
  from times_at_Some_D[OF dp(4)] dp(1,2,3) show "matches_schedule_grammar s"
    unfolding matches_schedule_grammar_def by blast
next
  assume "matches_schedule_grammar s"
  then obtain dp w1 t1 w2 w3 t2 rest where g:
    "s = dp @ '','' @ w1 @ t1 @ w2 @ ''-'' @ w3 @ t2 @ rest"
    "dp \<noteq> []" "\<forall>c \<in> set dp. \<not> is_line_terminator c"
    "\<forall>c \<in> set w1. is_space c" "\<forall>c \<in> set w2. is_space c" "\<forall>c \<in> set w3. is_space c"
    "is_time_text t1" "is_time_text t2"
    unfolding matches_schedule_grammar_def by blast
  have "times_at ('','' @ w1 @ t1 @ w2 @ ''-'' @ w3 @ t2 @ rest) \<noteq> None"
    using times_at_grammar[OF g(4-8)] by simp
  from date_group_grammar[OF g(2,3) this] show "dateTimeMatch s \<noteq> None"
    by (simp add: dateTimeMatch_def g(1))
qed

lemma timezone_at_Some:
  "timezone_at s = Some z \<longleftrightarrow> s = ''('' @ z @ '')'' \<and> z \<noteq> [] \<and> CHR '')'' \<notin> set z"
proof
  assume a: "timezone_at s = Some z"
  then obtain rest where s: "s = CHR ''('' # rest"
    by (auto simp: timezone_at_def split: list.splits if_splits)
  from a s have z: "z = takeWhile (\<lambda>x. x \<noteq> CHR '')'') rest" "z \<noteq> []"
    and d: "dropWhile (\<lambda>x. x \<noteq> CHR '')'') rest = '')''"
    by (auto simp: timezone_at_def Let_def split: if_splits)
  have "rest = z @ '')''"
    using takeWhile_dropWhile_id[of "\<lambda>x. x \<noteq> CHR '')''" rest] z(1) d by simp
  moreover have "CHR '')'' \<notin> set z"
    using z(1) by (auto dest: set_takeWhileD)
  ultimately show "s = ''('' @ z @ '')'' \<and> z \<noteq> [] \<and> CHR '')'' \<notin> set z"
    using s z(2) by simp
next
  assume a: "s = ''('' @ z @ '')'' \<and> z \<noteq> [] \<and> CHR '')'' \<notin> set z"
  then have all: "\<forall>x \<in> set z. x \<noteq> CHR '')''" by auto
  have "takeWhile (\<lambda>x. x \<noteq> CHR '')'') (z @ '')'') = z"
    "dropWhile (\<lambda>x. x \<noteq> CHR '')'') (z @ '')'') = '')''"
    using all by (induction z) auto
  with a show "timezone_at s = Some z"
    by (simp add: timezone_at_def)
qed

lemma timezoneMatch_Some_D:
  "timezoneMatch s = Some z \<Longrightarrow>
     \<exists>before. s = before @ ''('' @ z @ '')'' \<and> z \<noteq> [] \<and> CHR '')'' \<notin> set z"
proof (induction s)
  case Nil
  then show ?case by simp
next
  case (Cons c cs)
  show ?case
  proof (cases "timezone_at (c # cs)")
    case (Some y)
    with Cons.prems have "timezone_at (c # cs) = Some z" by simp
    then show ?thesis
      unfolding timezone_at_Some by (intro exI[of _ "[]"]) simp
  next
    case None
    with Cons.prems have "timezoneMatch cs = Some z" by simp
    from Cons.IH[OF this] obtain before where
      "cs = before @ ''('' @ z @ '')'' \<and> z \<noteq> [] \<and> CHR '')'' \<notin> set z" by blast
    then show ?thesis
      by (intro exI[of _ "c # before"]) simp
  qed
qed

lemma timezoneMatch_group:
  "z \<noteq> [] \<Longrightarrow> CHR '')'' \<notin> set z \<Longrightarrow> timezoneMatch (before @ ''('' @ z @ '')'') \<noteq> None"
proof (induction before)
  case Nil
  then have "timezone_at (''('' @ z @ '')'') = Some z"
    by (simp add: timezone_at_Some)
  then show ?case by simp
next
  case (Cons c cs)
  then show ?case by (auto split: option.splits)
qed

lemma timezoneMatch_None_iff: "timezoneMatch s = None \<longleftrightarrow> \<not> some_timezone_group s"
proof
  assume "timezoneMatch s = None"
  then show "\<not> some_timezone_group s"
    unfolding some_timezone_group_def using timezoneMatch_group by metis
next
  assume n: "\<not> some_timezone_group s"
  show "timezoneMatch s = None"
  proof (rule ccontr)
    assume "timezoneMatch s \<noteq> None"
    then obtain z where "timezoneMatch s = Some z" by auto
    from timezoneMatch_Some_D[OF this] n show False
      unfolding some_timezone_group_def by blast
  qed
qed

subsection \<open>The schedule parser (C3, C6)\<close>

lemma bind_err_Inr_D: "bind_err r f = Inr y \<Longrightarrow> \<exists>x. r = Inr x \<and> f x = Inr y"
  by (cases r) (simp_all add: bind_err_def)

lemma parse_try_Inr_D:
  assumes "parse_try lib s = Inr details"
  shows "\<exists>datePart startTime endTime formatted.
           dateTimeMatch s = Some (datePart, startTime, endTime) \<and>
           ed_eventDate details = Some formatted \<and>
           ed_startTime details = Some startTime \<and> ed_endTime details = Some endTime \<and>
           ed_timezone details = (case timezoneMatch s of Some z \<Rightarrow> z | None \<Rightarrow> ''UTC'')"
proof -
  from assms obtain datePart startTime endTime where
    m: "dateTimeMatch s = Some (datePart, startTime, endTime)"
    by (cases "dateTimeMatch s") (auto simp: parse_try_def Let_def)
  let ?tz = "case timezoneMatch s of Some z \<Rightarrow> z | None \<Rightarrow> ''UTC''"
  from assms m have
    "bind_err (moment_tz lib datePart ''DD MMM YYYY'' ?tz) (\<lambda>eventDate.
       bind_err (moment_format lib eventDate ''YYYY-MM-DD'') (\<lambda>formatted.
       bind_err (moment_add_iso lib eventDate startTime) (\<lambda>startIso.
       bind_err (moment_add_iso lib eventDate endTime) (\<lambda>endIso.
         Inr \<lparr>ed_eventDate = Some formatted, ed_startTime = Some startTime,
              ed_endTime = Some endTime, ed_timezone = ?tz,
              ed_startDateTime = startIso, ed_endDateTime = endIso\<rparr>)))) = Inr details"
    by (simp add: parse_try_def Let_def)
  then obtain formatted startIso endIso where
    "details = \<lparr>ed_eventDate = Some formatted, ed_startTime = Some startTime,
              ed_endTime = Some endTime, ed_timezone = ?tz,
              ed_startDateTime = startIso, ed_endDateTime = endIso\<rparr>"
    by (auto dest!: bind_err_Inr_D)
  with m show ?thesis by simp
qed

lemma parseEventDate_cases:
  "parseEventDate lib x = no_event \<or> (\<exists>s. x = Some s \<and> s \<noteq> [] \<and> parse_try lib s = Inr (parseEventDate lib x))"
  by (auto simp: parseEventDate_def split: option.splits sum.splits)

lemma parse_try_no_match: "dateTimeMatch s = None \<Longrightarrow> \<exists>e. parse_try lib s = Inl e"
  by (simp add: parse_try_def Let_def)

text \<open>
  Claim C3. The schedule parser is total and never raises: for \<open>null\<close> and for the empty
  string it returns the shape with \<open>null\<close> date and times and the timezone \<open>UTC\<close>; for
  every string that does not match the grammar \<open><datepart>, <HH:MM> - <HH:MM>\<close>, and
  whenever anything throws in its \<open>try\<close> block, the result is that of \<open>parse(null)\<close>;
  and whenever the date of a result is \<open>null\<close>, so is every other field but the
  timezone.
\<close>

theorem parseEventDate_total:
  "parseEventDate lib None =
     \<lparr>ed_eventDate = None, ed_startTime = None, ed_endTime = None, ed_timezone = ''UTC'',
      ed_startDateTime = None, ed_endDateTime = None\<rparr> \<and>
   parseEventDate lib (Some []) = parseEventDate lib None \<and>
   (\<not> matches_schedule_grammar s \<longrightarrow> parseEventDate lib (Some s) = parseEventDate lib None) \<and>
   (parse_try lib s = Inl e \<longrightarrow> parseEventDate lib (Some s) = parseEventDate lib None) \<and>
   (ed_eventDate (parseEventDate lib x) = None \<longrightarrow>
      ed_startTime (parseEventDate lib x) = None \<and> ed_endTime (parseEventDate lib x) = None \<and>
      ed_startDateTime (parseEventDate lib x) = None \<and> ed_endDateTime (parseEventDate lib x) = None)"
proof (intro conjI impI)
  show "parseEventDate lib None =
     \<lparr>ed_eventDate = None, ed_startTime = None, ed_endTime = None, ed_timezone = ''UTC'',
      ed_startDateTime = None, ed_endDateTime = None\<rparr>"
    by (simp add: parseEventDate_def no_event_def)
  show "parseEventDate lib (Some []) = parseEventDate lib None"
    by (simp add: parseEventDate_def)
  show "parseEventDate lib (Some s) = parseEventDate lib None" if "\<not> matches_schedule_grammar s"
  proof -
    from that have "dateTimeMatch s = None" using dateTimeMatch_grammar[of s] by blast
    then obtain e where "parse_try lib s = Inl e"
      using parse_try_no_match[of s lib] by blast
    then show ?thesis
      by (simp add: parseEventDate_def)
  qed
  show "parseEventDate lib (Some s) = parseEventDate lib None" if "parse_try lib s = Inl e"
    using that by (simp add: parseEventDate_def)
  assume n: "ed_eventDate (parseEventDate lib x) = None"
  have "parseEventDate lib x = no_event"
    using parseEventDate_cases[of lib x] n by (auto dest: parse_try_Inr_D)
  then show "ed_startTime (parseEventDate lib x) = None" "ed_endTime (parseEventDate lib x) = None"
    "ed_startDateTime (parseEventDate lib x) = None" "ed_endDateTime (parseEventDate lib x) = None"
    by (simp_all add: no_event_def)
qed

lemma garbage_no_match: "dateTimeMatch ''garbage'' = None"
  by code_simp

theorem parseEventDate_total_witness:
  "\<not> matches_schedule_grammar ''garbage'' \<and>
   parseEventDate sample_moment (Some ''garbage'') =
     \<lparr>ed_eventDate = None, ed_startTime = None, ed_endTime = None, ed_timezone = ''UTC'',
      ed_startDateTime = None, ed_endDateTime = None\<rparr> \<and>
   ed_startTime (parseEventDate sample_moment (Some ''garbage'')) = None"
proof -
  have n: "\<not> matches_schedule_grammar ''garbage''"
    using dateTimeMatch_grammar[of "''garbage''"] garbage_no_match by simp
  from n parseEventDate_total[of sample_moment "''garbage''" "Error []" "Some ''garbage''"]
  show ?thesis by simp
qed

text \<open>
  Claim C6, as the code has it. The parser does not compare the zone name with any set
  of recognised zones. When the parse succeeds (the date is not \<open>null\<close>), the timezone
  of the result is the text of the parenthesized group that ends the string, as it is
  written, and \<open>UTC\<close> when the string does not end with such a group; when the parse
  fails, the timezone is \<open>UTC\<close>.
\<close>

theorem parseEventDate_timezone_verbatim:
  "(ed_eventDate (parseEventDate lib (Some s)) \<noteq> None \<longrightarrow>
      ed_timezone (parseEventDate lib (Some s)) =
        (case timezoneMatch s of Some z \<Rightarrow> z | None \<Rightarrow> ''UTC'')) \<and>
   (ed_eventDate (parseEventDate lib (Some s)) = None \<longrightarrow>
      ed_timezone (parseEventDate lib (Some s)) = ''UTC'') \<and>
   (timezoneMatch s = Some z \<longrightarrow>
      (\<exists>before. s = before @ ''('' @ z @ '')'') \<and> z \<noteq> [] \<and> CHR '')'' \<notin> set z) \<and>
   (timezoneMatch s = None \<longleftrightarrow> \<not> some_timezone_group s)"
proof (intro conjI impI)
  assume "ed_eventDate (parseEventDate lib (Some s)) \<noteq> None"
  then have "parse_try lib s = Inr (parseEventDate lib (Some s))"
    using parseEventDate_cases[of lib "Some s"] by (auto simp: no_event_def)
  from parse_try_Inr_D[OF this]
  show "ed_timezone (parseEventDate lib (Some s)) =
        (case timezoneMatch s of Some z \<Rightarrow> z | None \<Rightarrow> ''UTC'')" by blast
next
  assume "ed_eventDate (parseEventDate lib (Some s)) = None"
  then have "parseEventDate lib (Some s) = no_event"
    using parseEventDate_cases[of lib "Some s"] by (auto dest: parse_try_Inr_D)
  then show "ed_timezone (parseEventDate lib (Some s)) = ''UTC''"
    by (simp add: no_event_def)
next
  assume "timezoneMatch s = Some z"
  from timezoneMatch_Some_D[OF this]
  show "\<exists>before. s = before @ ''('' @ z @ '')''" "z \<noteq> []" "CHR '')'' \<notin> set z" by blast+
next
  show "timezoneMatch s = None \<longleftrightarrow> \<not> some_timezone_group s"
    by (rule timezoneMatch_None_iff)
qed

lemma sample_rome:
  "ed_eventDate (parseEventDate sample_moment (Some ''30 nov 2025, 17:00 - 18:30 (Europe/Rome)'')) =
     Some ''2025-11-30''"
  "timezoneMatch ''30 nov 2025, 17:00 - 18:30 (Europe/Rome)'' = Some ''Europe/Rome''"
  by code_simp+

theorem parseEventDate_timezone_verbatim_witness:
  "ed_eventDate (parseEventDate sample_moment (Some ''30 nov 2025, 17:00 - 18:30 (Europe/Rome)'')) \<noteq> None \<and>
   timezoneMatch ''30 nov 2025, 17:00 - 18:30 (Europe/Rome)'' = Some ''Europe/Rome'' \<and>
   ed_timezone (parseEventDate sample_moment (Some ''30 nov 2025, 17:00 - 18:30 (Europe/Rome)'')) =
     ''Europe/Rome''"
  using parseEventDate_timezone_verbatim[of sample_moment
      "''30 nov 2025, 17:00 - 18:30 (Europe/Rome)''" "''Europe/Rome''"] sample_rome
  by simp

text \<open>The claim as the specification states it fails: a zone that is no IANA zone comes
  back as it was written, not as \<open>UTC\<close>.\<close>

theorem unvalidated_timezone_counterexample:
  "ed_eventDate (parseEventDate sample_moment (Some ''30 nov 2025, 17:00 - 18:30 (Mars/Phobos)'')) =
     Some ''2025-11-30'' \<and>
   ed_timezone (parseEventDate sample_moment (Some ''30 nov 2025, 17:00 - 18:30 (Mars/Phobos)'')) =
     ''Mars/Phobos'' \<and>
   ed_timezone (parseEventDate sample_moment (Some ''30 nov 2025, 17:00 - 18:30 (Mars/Phobos)'')) \<noteq>
     ''UTC''"
  by code_simp

subsection \<open>Provider resolution (C1)\<close>

lemma js_or_present:
  "js_or a b = (if present a then a else b)"
  by (cases a) (auto simp: js_or_def present_def)

lemma extractVendor_first:
  "extractVendorFromOrder order = (if present (first_vendor order) then first_vendor order else None)"
  by (auto simp: extractVendorFromOrder_def first_vendor_def opt_list_def js_or_present
      split: option.splits list.splits)

lemma provider_parse:
  "provider (parseOrderWithCowlendar client lib order) =
     js_or (extractHostFromOrder client order) (extractVendorFromOrder order)"
  by (simp add: parseOrderWithCowlendar_def Let_def)

lemma host_parse:
  "host (parseOrderWithCowlendar client lib order) = provider (parseOrderWithCowlendar client lib order)"
  by (simp add: parseOrderWithCowlendar_def Let_def)

text \<open>
  Claim C1, as the code has it. The resolved provider of an order is the host (from the
  product's metafields or tags) when the host is neither \<open>null\<close> nor empty, else the
  vendor of the first line item when that is neither \<open>null\<close> nor empty, else \<open>null\<close>;
  and a booking order is in the result of \<open>getEventOrders\<close> whatever its provider is,
  also when the provider is \<open>null\<close>.
\<close>

theorem provider_resolution:
  "provider (parseOrderWithCowlendar client lib order) =
     (if present (extractHostFromOrder client order) then extractHostFromOrder client order
      else if present (first_vendor order) then first_vendor order
      else None) \<and>
   (getOrders client params = Inr orders \<and> order \<in> set orders \<and> hasCowlendarMetadata env_prefix order \<longrightarrow>
      (\<exists>bookings. getEventOrders client lib env_prefix params None = Inr bookings \<and>
         parseOrderWithCowlendar client lib order \<in> set bookings))"
proof (intro conjI impI)
  show "provider (parseOrderWithCowlendar client lib order) =
     (if present (extractHostFromOrder client order) then extractHostFromOrder client order
      else if present (first_vendor order) then first_vendor order
      else None)"
    by (simp add: provider_parse js_or_present extractVendor_first)
next
  assume a: "getOrders client params = Inr orders \<and> order \<in> set orders \<and> hasCowlendarMetadata env_prefix order"
  then have "getEventOrders client lib env_prefix params None =
     Inr (map (parseOrderWithCowlendar client lib) (filter (hasCowlendarMetadata env_prefix) orders))"
    by (simp add: getEventOrders_Inr)
  moreover have "parseOrderWithCowlendar client lib order \<in>
     set (map (parseOrderWithCowlendar client lib) (filter (hasCowlendarMetadata env_prefix) orders))"
    using a by auto
  ultimately show "\<exists>bookings. getEventOrders client lib env_prefix params None = Inr bookings \<and>
         parseOrderWithCowlendar client lib order \<in> set bookings" by blast
qed

lemma sample_hosts:
  "extractHostFromOrder sample_client hosted_order = Some ''Llamas''"
  "first_vendor hosted_order = Some ''Other''"
  "extractHostFromOrder sample_client plain_order = None"
  "first_vendor plain_order = Some ''Studio Marta''"
  "extractHostFromOrder sample_client anonymous_order = None"
  "first_vendor anonymous_order = None"
  "hasCowlendarMetadata None anonymous_order"
  "anonymous_order \<in> set sample_orders"
  by code_simp+

theorem provider_resolution_witness:
  "extractHostFromOrder sample_client hosted_order = Some ''Llamas'' \<and>
   first_vendor hosted_order = Some ''Other'' \<and>
   provider (parseOrderWithCowlendar sample_client sample_moment hosted_order) = Some ''Llamas'' \<and>
   extractHostFromOrder sample_client plain_order = None \<and>
   provider (parseOrderWithCowlendar sample_client sample_moment plain_order) = Some ''Studio Marta'' \<and>
   provider (parseOrderWithCowlendar sample_client sample_moment anonymous_order) = None \<and>
   (\<exists>bookings. getEventOrders sample_client sample_moment None no_params None = Inr bookings \<and>
      parseOrderWithCowlendar sample_client sample_moment anonymous_order \<in> set bookings)"
  using provider_resolution[of sample_client sample_moment hosted_order no_params sample_orders None]
    provider_resolution[of sample_client sample_moment plain_order no_params sample_orders None]
    provider_resolution[of sample_client sample_moment anonymous_order no_params sample_orders None]
    sample_hosts sample_getOrders
  by (simp add: present_def)

text \<open>The claim as the specification states it fails: the host of this order is the
  empty string, which is not \<open>null\<close>, and the provider is the vendor.\<close>

theorem empty_host_counterexample:
  "extractHostFromOrder sample_client blank_host_order = Some [] \<and>
   provider (parseOrderWithCowlendar sample_client sample_moment blank_host_order) = Some ''Other''"
  by code_simp

subsection \<open>The provider filter (C5)\<close>

lemma lower_match_iff:
  "name \<noteq> [] \<Longrightarrow> lower_match v name \<longleftrightarrow> equal_ignoring_case v name"
  by (cases v) (auto simp: lower_match_def equal_ignoring_case_def dest: toLowerCase_Nil_iff)

lemma provider_filter_parsed:
  "name \<noteq> [] \<Longrightarrow>
   provider_filter name (parseOrderWithCowlendar client lib order) \<longleftrightarrow>
   provider_or_vendor_matches name (parseOrderWithCowlendar client lib order)"
  by (simp add: provider_filter_def provider_or_vendor_matches_def Let_def host_parse
      lower_match_iff list_ex_iff)

text \<open>
  Claim C5. For a provider name (the routes pass one only when it is not empty), the
  provider filter keeps exactly the bookings whose resolved provider equals the name when
  case is ignored or that have some line item whose vendor does: the union of the two,
  in the order of the event orders.
\<close>

theorem provider_filter_union:
  assumes "providerName \<noteq> []"
  shows "getOrdersByProvider client lib env_prefix providerName params =
     (case getEventOrders client lib env_prefix params None of
        Inl error \<Rightarrow> Inl error
      | Inr bookings \<Rightarrow> Inr (filter (provider_or_vendor_matches providerName) bookings))"
proof (cases "getOrders client params")
  case (Inl e)
  then show ?thesis
    by (simp add: getOrdersByProvider_def getEventOrders_Inl bind_err_def)
next
  case (Inr orders)
  have "filter (provider_filter providerName)
          (map (parseOrderWithCowlendar client lib) (filter (hasCowlendarMetadata env_prefix) orders)) =
        filter (provider_or_vendor_matches providerName)
          (map (parseOrderWithCowlendar client lib) (filter (hasCowlendarMetadata env_prefix) orders))"
    by (rule filter_cong) (auto simp: provider_filter_parsed[OF assms])
  then show ?thesis
    by (simp add: getOrdersByProvider_def getEventOrders_Inr[OF Inr] bind_err_def)
qed

lemma sample_other:
  "filter (provider_or_vendor_matches ''OTHER'')
     (map (parseOrderWithCowlendar sample_client sample_moment)
        [scenario_order, hosted_order, blank_host_order, anonymous_order]) =
   map (parseOrderWithCowlendar sample_client sample_moment) [hosted_order, blank_host_order]"
  "provider (parseOrderWithCowlendar sample_client sample_moment hosted_order) = Some ''Llamas''"
  by code_simp+

theorem provider_filter_union_witness:
  "''OTHER'' \<noteq> [] \<and>
   provider (parseOrderWithCowlendar sample_client sample_moment hosted_order) = Some ''Llamas'' \<and>
   getOrdersByProvider sample_client sample_moment None ''OTHER'' no_params =
     Inr (map (parseOrderWithCowlendar sample_client sample_moment) [hosted_order, blank_host_order])"
  using provider_filter_union[of "''OTHER''" sample_client sample_moment None no_params]
    sample_event_orders sample_other
  by simp

subsection \<open>Composition of the filters (C7)\<close>

lemma orders_handler_query:
  "orders_handler client lib tns env req =
     (case getEventOrders client lib (getenv env ''COWLENDAR_METADATA_PREFIX'') (orders_shopifyParams req) None of
        Inl error \<Rightarrow> Json_error 500 ''Failed to fetch orders'' (error_message error)
      | Inr bookings \<Rightarrow> Json_bookings (query tns req bookings))"
  by (auto simp: orders_handler_def Let_def getOrdersByProvider_def bind_err_def query_def
      split: sum.splits)

lemma filter_mem_cong: "(\<And>x. x \<in> set xs \<Longrightarrow> P x = Q x) \<Longrightarrow> filter P xs = filter Q xs"
  by (rule filter_cong) auto

lemma by_event_date_filter: "by_event_date req bs = filter (keeps_event_date req) bs"
  by (simp add: by_event_date_def keeps_event_date_def[abs_def])

lemma by_date_from_filter: "by_date_from tns req bs = filter (keeps_date_from tns req) bs"
  by (simp add: by_date_from_def keeps_date_from_def[abs_def])

lemma by_date_to_filter: "by_date_to tns req bs = filter (keeps_date_to tns req) bs"
  by (simp add: by_date_to_def keeps_date_to_def[abs_def])

lemma query_filter:
  "query tns req bs =
     filter (\<lambda>b. keeps_provider req b \<and> keeps_event_date req b \<and> keeps_date_from tns req b \<and>
                 keeps_date_to tns req b) bs"
proof -
  have "(if truthy (q_provider req) then filter (provider_filter (the (q_provider req))) bs else bs) =
        filter (keeps_provider req) bs"
    by (simp add: keeps_provider_def[abs_def])
  then show ?thesis
    unfolding query_def apply_date_filters_def by_event_date_filter by_date_from_filter
      by_date_to_filter
    by (simp add: conj_commute conj_left_commute)
qed

lemma keeps_only [simp]:
  "keeps_provider (only_provider req) = keeps_provider req"
  "keeps_event_date (only_provider req) b" "keeps_date_from tns (only_provider req) b"
  "keeps_date_to tns (only_provider req) b"
  "keeps_event_date (only_event_date req) = keeps_event_date req"
  "keeps_provider (only_event_date req) b" "keeps_date_from tns (only_event_date req) b"
  "keeps_date_to tns (only_event_date req) b"
  "keeps_date_from tns (only_date_from req) = keeps_date_from tns req"
  "keeps_provider (only_date_from req) b" "keeps_event_date (only_date_from req) b"
  "keeps_date_to tns (only_date_from req) b"
  "keeps_date_to tns (only_date_to req) = keeps_date_to tns req"
  "keeps_provider (only_date_to req) b" "keeps_event_date (only_date_to req) b"
  "keeps_date_from tns (only_date_to req) b"
  by (simp_all add: keeps_provider_def keeps_event_date_def keeps_date_from_def keeps_date_to_def
      only_provider_def only_event_date_def only_date_from_def only_date_to_def fun_eq_iff)

lemma in_every_single_result_iff:
  "in_every_single_result tns req bs b \<longleftrightarrow>
     b \<in> set bs \<and> keeps_provider req b \<and> keeps_event_date req b \<and> keeps_date_from tns req b \<and>
     keeps_date_to tns req b"
  unfolding in_every_single_result_def query_filter by auto

text \<open>
  Claim C7. For every sequence of bookings and every filter specification, the result of
  the query is the input sequence restricted to the bookings that are in the result of
  each single-field query: as a set it is the intersection of the single-field results,
  and it keeps the order of the input, with no sorting. The handler of
  \<open>GET /api/orders\<close> answers with this query of the event orders of the store.
\<close>

theorem query_conjunction:
  "query tns req bookings = filter (in_every_single_result tns req bookings) bookings \<and>
   set (query tns req bookings) =
     set (query tns (only_provider req) bookings) \<inter> set (query tns (only_event_date req) bookings) \<inter>
     set (query tns (only_date_from req) bookings) \<inter> set (query tns (only_date_to req) bookings) \<and>
   subseq (query tns req bookings) bookings \<and>
   orders_handler client lib tns env req =
     (case getEventOrders client lib (getenv env ''COWLENDAR_METADATA_PREFIX'')
             (orders_shopifyParams req) None of
        Inl error \<Rightarrow> Json_error 500 ''Failed to fetch orders'' (error_message error)
      | Inr event_orders \<Rightarrow> Json_bookings (query tns req event_orders))"
proof (intro conjI)
  show "query tns req bookings = filter (in_every_single_result tns req bookings) bookings"
    unfolding query_filter[of tns req]
    by (rule filter_mem_cong) (simp add: in_every_single_result_iff)
  show "set (query tns req bookings) =
     set (query tns (only_provider req) bookings) \<inter> set (query tns (only_event_date req) bookings) \<inter>
     set (query tns (only_date_from req) bookings) \<inter> set (query tns (only_date_to req) bookings)"
    unfolding query_filter by auto
  show "subseq (query tns req bookings) bookings"
    unfolding query_filter by simp
  show "orders_handler client lib tns env req =
     (case getEventOrders client lib (getenv env ''COWLENDAR_METADATA_PREFIX'')
             (orders_shopifyParams req) None of
        Inl error \<Rightarrow> Json_error 500 ''Failed to fetch orders'' (error_message error)
      | Inr event_orders \<Rightarrow> Json_bookings (query tns req event_orders))"
    by (rule orders_handler_query)
qed

lemma sample_query:
  "query sample_sign other_november_request sample_bookings =
     [parseOrderWithCowlendar sample_client sample_moment hosted_order]"
  "query sample_sign (only_provider other_november_request) sample_bookings =
     map (parseOrderWithCowlendar sample_client sample_moment) [hosted_order, blank_host_order]"
  "query sample_sign (only_event_date other_november_request) sample_bookings =
     map (parseOrderWithCowlendar sample_client sample_moment) [scenario_order, hosted_order]"
  by code_simp+

theorem query_conjunction_witness:
  "query sample_sign other_november_request sample_bookings =
     filter (in_every_single_result sample_sign other_november_request sample_bookings) sample_bookings \<and>
   query sample_sign other_november_request sample_bookings =
     [parseOrderWithCowlendar sample_client sample_moment hosted_order] \<and>
   query sample_sign (only_provider other_november_request) sample_bookings =
     map (parseOrderWithCowlendar sample_client sample_moment) [hosted_order, blank_host_order] \<and>
   query sample_sign (only_event_date other_november_request) sample_bookings =
     map (parseOrderWithCowlendar sample_client sample_moment) [scenario_order, hosted_order]"
  using query_conjunction[of sample_sign other_november_request sample_bookings sample_client
      sample_moment sample_env] sample_query
  by simp

subsection \<open>Host-scoped access (C8)\<close>

lemma keys_lower_update:
  "keys_lower al \<Longrightarrow> keys_lower (AList.update (toLowerCase k) v al)"
  unfolding keys_lower_def AList.dom_update by (simp add: toLowerCase_idem)

lemma keys_lower_assign:
  "keys_lower al \<Longrightarrow> keys_lower (assign_host_key (toLowerCase k) v al)"
  by (simp add: assign_host_key_def keys_lower_update)

lemma keys_lower_fold:
  "keys_lower acc \<Longrightarrow>
   keys_lower (fold (\<lambda>(key, v) hostKeys.
             if startsWith key ''HOST_API_KEY_''
             then assign_host_key (toLowerCase (replace_first ''HOST_API_KEY_'' [] key)) v hostKeys
             else hostKeys) env acc)"
proof (induction env arbitrary: acc)
  case Nil
  then show ?case by simp
next
  case (Cons kv env)
  obtain key v where kv: "kv = (key, v)" by (cases kv)
  show ?case
    unfolding kv fold_Cons comp_apply
    by (rule Cons.IH) (simp add: keys_lower_assign Cons.prems)
qed

lemma set_object_keys: "set (object_keys obj) = fst ` set obj"
  by (auto simp: object_keys_def)

lemma getHostApiKeys_lower:
  "k \<in> set (object_keys (getHostApiKeys env)) \<Longrightarrow> toLowerCase k = k"
proof -
  have "keys_lower (getHostApiKeys env)"
    unfolding getHostApiKeys_def by (rule keys_lower_fold) (simp add: keys_lower_def)
  then show "k \<in> set (object_keys (getHostApiKeys env)) \<Longrightarrow> toLowerCase k = k"
    unfolding keys_lower_def set_object_keys by blast
qed

lemma authenticate_host_D:
  assumes "authenticateApiKey env req = Next req1" "authenticatedAs req1 = Some ''host''"
    "authenticatedAs req = None"
  shows "\<exists>a. authenticatedHost req1 = Some a \<and> toLowerCase a = a \<and>
           param_hostName req1 = param_hostName req"
proof -
  let ?key = "js_or (header_api_key req) (query_api_key req)"
  let ?found = "find (\<lambda>host. map_of (getHostApiKeys env) host = ?key)
                  (object_keys (getHostApiKeys env))"
  from assms have "\<exists>a. ?found = Some a \<and>
      req1 = req\<lparr>authenticatedAs := Some ''host'', authenticatedHost := Some a\<rparr>"
    unfolding authenticateApiKey_def Let_def
    by (cases ?found) (auto split: if_splits)
  then obtain a where f: "?found = Some a"
    and r: "req1 = req\<lparr>authenticatedAs := Some ''host'', authenticatedHost := Some a\<rparr>" by blast
  from f have "a \<in> set (object_keys (getHostApiKeys env))"
    unfolding find_Some_iff by (metis nth_mem)
  then have "toLowerCase a = a" by (rule getHostApiKeys_lower)
  with r show ?thesis by simp
qed

lemma validateHostAccess_host:
  assumes "authenticatedAs req = Some ''host''" "authenticatedHost req = Some a" "toLowerCase a = a"
  shows "(toLowerCase a = toLowerCase (param_hostName req) \<longrightarrow> validateHostAccess req = Next req) \<and>
         (toLowerCase a \<noteq> toLowerCase (param_hostName req) \<longrightarrow>
            (\<exists>m. validateHostAccess req = Respond (Json_error 403 ''Access denied'' m)))"
  using assms by (auto simp: validateHostAccess_def Let_def)

lemma validateHostAccess_global:
  "authenticatedAs req = Some ''global'' \<Longrightarrow> validateHostAccess req = Next req"
  by (simp add: validateHostAccess_def)

text \<open>On the routes under \<open>/host/:hostName\<close> a caller with the key of a host reaches
  the handler when the requested name is its own, case ignored, and is refused with 403
  otherwise.\<close>

lemma host_route_enforces_identity:
  assumes "authenticateApiKey env req = Next req1" "authenticatedAs req1 = Some ''host''"
    "authenticatedAs req = None"
  shows "\<exists>a. authenticatedHost req1 = Some a \<and>
     (toLowerCase a = toLowerCase (param_hostName req) \<longrightarrow>
        host_route client lib env req = host_handler client lib env req1) \<and>
     (toLowerCase a \<noteq> toLowerCase (param_hostName req) \<longrightarrow>
        (\<exists>m. host_route client lib env req = Json_error 403 ''Access denied'' m))"
proof -
  from authenticate_host_D[OF assms] obtain a where
    a: "authenticatedHost req1 = Some a" "toLowerCase a = a" "param_hostName req1 = param_hostName req"
    by blast
  from validateHostAccess_host[OF assms(2) a(1,2)] a(3) assms(1) show ?thesis
    by (auto simp: host_route_def a(1))
qed

text \<open>The route \<open>GET /api/orders\<close> runs its handler for every authenticated caller,
  and the handler never answers 403.\<close>

lemma orders_route_no_identity_check:
  "authenticateApiKey env req = Next req1 \<Longrightarrow>
   orders_route client lib tns env req = orders_handler client lib tns env req1"
  by (simp add: orders_route_def)

lemma orders_handler_never_403:
  "orders_handler client lib tns env req \<noteq> Json_error 403 e m"
  by (auto simp: orders_handler_def Let_def split: sum.splits)

text \<open>
  Claim C8 does not hold on \<open>GET /api/orders\<close>. The caller has the key of the host
  \<open>llamas\<close>. Asking for the provider \<open>Another_Host\<close> it receives an empty success
  response, and asking for the provider \<open>Other\<close> it receives the bookings of that
  provider; on \<open>GET /api/bookings/host/Another_Host\<close> the same caller is refused with
  403.
\<close>

theorem orders_route_ignores_identity:
  "authenticateApiKey sample_env (llamas_request\<lparr>q_provider := Some ''Another_Host''\<rparr>) =
     Next (llamas_request\<lparr>q_provider := Some ''Another_Host'', authenticatedAs := Some ''host'',
             authenticatedHost := Some ''llamas''\<rparr>) \<and>
   orders_route sample_client sample_moment sample_sign sample_env
     (llamas_request\<lparr>q_provider := Some ''Another_Host''\<rparr>) = Json_bookings [] \<and>
   orders_route sample_client sample_moment sample_sign sample_env
     (llamas_request\<lparr>q_provider := Some ''Other''\<rparr>) =
     Json_bookings (map (parseOrderWithCowlendar sample_client sample_moment)
                      [hosted_order, blank_host_order]) \<and>
   host_route sample_client sample_moment sample_env
     (llamas_request\<lparr>param_hostName := ''Another_Host''\<rparr>) =
     Json_error 403 ''Access denied''
       (''Host '' @ quoted ''llamas'' @ '' cannot access data for host '' @ quoted ''Another_Host'')"
  by code_simp

subsection \<open>The limit of the store query (C9)\<close>

lemma math_min_le: "math_min x b = Num n \<Longrightarrow> n \<le> b"
  by (cases x) (auto simp: math_min_def)

lemma orders_limit_clamped:
  "qp_limit (queryParams (orders_shopifyParams req)) = math_min (limit_or 50 (q_limit req)) 250"
  by (simp add: queryParams_def orders_shopifyParams_def Let_def)

lemma host_limit_unclamped:
  "qp_limit (queryParams (host_shopifyParams req)) = limit_or 50 (q_limit req)"
  by (simp add: queryParams_def host_shopifyParams_def)

lemma lower_char_digit: "lower_char CHR ''1'' = CHR ''1''" "lower_char CHR ''0'' = CHR ''0''"
  by (simp_all add: lower_char_def upper_letters_def lower_letters_def)

lemma digit_value_10: "digit_value 10 CHR ''1'' = Some 1" "digit_value 10 CHR ''0'' = Some 0"
  by (simp_all add: digit_value_def lower_char_digit digit_chars_def)

lemma parseInt_1000: "parseInt ''1000'' = Num 1000"
  by (simp add: parseInt_def Let_def is_space_def digit_value_10 digits_value_def)

text \<open>On \<open>GET /api/orders\<close> a limit that is a number reaches the store as at most
  250.\<close>

lemma orders_route_limit_bound:
  "qp_limit (queryParams (orders_shopifyParams req)) = Num n \<Longrightarrow> n \<le> 250"
  unfolding orders_limit_clamped by (rule math_min_le)

text \<open>What the handler of \<open>GET /api/bookings/host/:hostName\<close> asks of the store.\<close>

lemma host_handler_fetch:
  "host_handler client lib env req =
     (case get_orders client (queryParams (host_shopifyParams req)) of
        Inl error \<Rightarrow> Json_error 500 ''Failed to fetch host bookings'' ''Failed to fetch orders''
      | Inr orders \<Rightarrow>
          Json_bookings (host_filters req
            (filter (\<lambda>order. lower_match (host order) (param_hostName req))
               (map (parseOrderWithCowlendar client lib)
                  (filter (hasCowlendarMetadata (getenv env ''COWLENDAR_METADATA_PREFIX'')) orders)))))"
  by (auto simp: host_handler_def getOrdersByHost_def getEventOrders_def getOrders_def bind_err_def
      error_message_def Let_def split: sum.splits)

text \<open>
  Claim C9 does not hold on \<open>GET /api/bookings/host/:hostName\<close>: a requested limit of
  1000 reaches the store as 1000, while \<open>GET /api/orders\<close> passes 250.
\<close>

theorem host_route_limit_unclamped:
  "qp_limit (queryParams (host_shopifyParams (blank_request\<lparr>q_limit := Some ''1000''\<rparr>))) = Num 1000 \<and>
   qp_limit (queryParams (orders_shopifyParams (blank_request\<lparr>q_limit := Some ''1000''\<rparr>))) = Num 250"
  by (simp add: host_limit_unclamped orders_limit_clamped limit_or_def parseInt_1000 math_min_def
      blank_request_def)

subsection \<open>Webhook signatures (C10)\<close>

text \<open>
  Claim C10. With no webhook secret configured the verification is skipped and every
  payload with every signature is accepted. With a secret, the result is a boolean for
  every payload and signature: true exactly when the signature, without its first
  \<open>sha256=\<close>, is the keyed hash of the payload; a signature of another length makes the
  comparison throw, and that and every other exception of the \<open>try\<close> block give false.
\<close>

theorem webhook_signature_total:
  "(\<not> truthy webhookSecret \<longrightarrow> verifyWebhookSignature hmac webhookSecret payload signature = True) \<and>
   (verifyWebhookSignature hmac webhookSecret payload signature \<longleftrightarrow>
      \<not> truthy webhookSecret \<or>
      (\<exists>sig. signature = Some sig \<and> replace_first ''sha256='' [] sig = hmac (the webhookSecret) payload)) \<and>
   (truthy webhookSecret \<and> signature = Some sig \<and>
    length (replace_first ''sha256='' [] sig) \<noteq> length (hmac (the webhookSecret) payload) \<longrightarrow>
      (\<exists>m. verify_try hmac (the webhookSecret) payload signature = Inl (RangeError m)) \<and>
      verifyWebhookSignature hmac webhookSecret payload signature = False) \<and>
   (truthy webhookSecret \<and> verify_try hmac (the webhookSecret) payload signature = Inl e \<longrightarrow>
      verifyWebhookSignature hmac webhookSecret payload signature = False)"
  by (auto simp: verifyWebhookSignature_def verify_try_def timingSafeEqual_def Let_def
      split: option.splits sum.splits if_splits)

lemma sample_signature:
  "length (replace_first ''sha256='' [] ''sha256=bad'') \<noteq> length (sample_hmac ''s3cret'' ''{}'')"
  by code_simp

theorem webhook_signature_total_witness:
  "\<not> truthy None \<and>
   verifyWebhookSignature sample_hmac None ''{}'' (Some ''sha256=bad'') = True \<and>
   truthy (Some ''s3cret'') \<and>
   length (replace_first ''sha256='' [] ''sha256=bad'') \<noteq> length (sample_hmac ''s3cret'' ''{}'') \<and>
   verifyWebhookSignature sample_hmac (Some ''s3cret'') ''{}'' (Some ''sha256=bad'') = False"
  using webhook_signature_total[of None sample_hmac "''{}''" "Some ''sha256=bad''" "''sha256=bad''" "Error []"]
    webhook_signature_total[of "Some ''s3cret''" sample_hmac "''{}''" "Some ''sha256=bad''"
      "''sha256=bad''" "Error []"]
    sample_signature
  by (auto simp del: replace_first.simps)

end
